theory Spec2Isabelle
  imports Complex_Main
begin

section \<open>JavaScript values\<close>

text \<open>
  Manifests are JavaScript objects whose fields are typed \<^verbatim>\<open>unknown\<close>. A value is null,
  a boolean, a number (integers only), a string, an array, or an object; an object is the
  list of its entries in insertion order. A key that is absent reads as \<^verbatim>\<open>undefined\<close>,
  here \<open>None\<close>.
\<close>

datatype jvalue =
    JNull
  | JBool bool
  | JNum int
  | JStr string
  | JArr "jvalue list"
  | JObj "(string \<times> jvalue) list"

text \<open>The nullish-coalescing operator \<^verbatim>\<open>a ?? b\<close>.\<close>

fun orElse :: "'a option \<Rightarrow> 'a \<Rightarrow> 'a" where
  "orElse None d = d"
| "orElse (Some v) d = v"

text \<open>Truthiness, as \<^verbatim>\<open>if (v)\<close> and \<^verbatim>\<open>!v\<close> test it.\<close>

fun truthy :: "jvalue \<Rightarrow> bool" where
  "truthy JNull = False"
| "truthy (JBool b) = b"
| "truthy (JNum n) = (n \<noteq> 0)"
| "truthy (JStr s) = (s \<noteq> [])"
| "truthy (JArr xs) = True"
| "truthy (JObj kvs) = True"

fun truthyOpt :: "jvalue option \<Rightarrow> bool" where
  "truthyOpt None = False"
| "truthyOpt (Some v) = truthy v"

text \<open>
  Reading a property \<^verbatim>\<open>v.k\<close> of a value that is not null. Only an object holds the
  keys read in this development (service names and spec fields); on every other value
  they are undefined.
\<close>

fun getProp :: "jvalue \<Rightarrow> string \<Rightarrow> jvalue option" where
  "getProp (JObj kvs) k = map_of kvs k"
| "getProp v k = None"

fun getPath :: "jvalue \<Rightarrow> string list \<Rightarrow> jvalue option" where
  "getPath v [] = Some v"
| "getPath v (k # ks) = (case getProp v k of None \<Rightarrow> None | Some v' \<Rightarrow> getPath v' ks)"

text \<open>\<^verbatim>\<open>Array.prototype.join\<close> and \<^verbatim>\<open>Array.prototype.push\<close>.\<close>

fun joinWith :: "string \<Rightarrow> string list \<Rightarrow> string" where
  "joinWith sep [] = []"
| "joinWith sep [x] = x"
| "joinWith sep (x # y # ys) = x @ sep @ joinWith sep (y # ys)"

definition push :: "'a list \<Rightarrow> 'a \<Rightarrow> 'a list" where
  "push xs x = xs @ [x]"

text \<open>
  Conversion to a string, as a template literal and \<^verbatim>\<open>String(v)\<close> perform it. Integers
  are printed in decimal; an array joins its elements with commas, a null element printing
  as the empty string.
\<close>

fun showNat :: "nat \<Rightarrow> string" where
  "showNat n = (if n < 10 then [''0123456789'' ! n]
                else showNat (n div 10) @ [''0123456789'' ! (n mod 10)])"

definition showInt :: "int \<Rightarrow> string" where
  "showInt i = (if i < 0 then ''-'' @ showNat (nat (- i)) else showNat (nat i))"

fun toStringJ :: "jvalue \<Rightarrow> string" where
  "toStringJ JNull = ''null''"
| "toStringJ (JBool b) = (if b then ''true'' else ''false'')"
| "toStringJ (JNum n) = showInt n"
| "toStringJ (JStr s) = s"
| "toStringJ (JArr xs) = joinWith '','' (map (\<lambda>x. if x = JNull then [] else toStringJ x) xs)"
| "toStringJ (JObj kvs) = ''[object Object]''"

section \<open>Dynamo manifest generator\<close>

text \<open>
  The embedding follows \<^verbatim>\<open>generateDynamoManifest\<close>, \<^verbatim>\<open>generateFrontendSpec\<close>,
  \<^verbatim>\<open>generateWorkerSpec\<close> and \<^verbatim>\<open>validateManifest\<close>. The engine and the router mode are
  kept as strings, so that the \<^verbatim>\<open>default\<close> branch of the engine switch stays a branch
  of the model. \<open>engineArgs\<close> is the list that \<^verbatim>\<open>Object.entries\<close> yields.
\<close>

record Metadata =
  name :: string
  namespace :: string
  labels :: "(string \<times> string) list option"

record DynamoManifest =
  apiVersion :: string
  kind :: string
  metadata :: "Metadata option"
  spec :: "(string \<times> jvalue) list option"

record ValidationReport =
  valid :: bool
  errors :: "string list"

record ResourceRequest =
  gpu :: int
  memory :: "string option"

record DeploymentConfig =
  name :: string
  namespace :: string
  modelId :: string
  engine :: string
  mode :: string
  servedModelName :: "string option"
  routerMode :: string
  replicas :: int
  hfTokenSecret :: string
  contextLength :: "int option"
  enforceEager :: bool
  enablePrefixCaching :: bool
  trustRemoteCode :: bool
  resources :: "ResourceRequest option"
  engineArgs :: "(string \<times> jvalue) list option"

definition generateFrontendSpec :: "DeploymentConfig \<Rightarrow> (string \<times> jvalue) list" where
  "generateFrontendSpec config =
     (let spec0 = [(''componentType'', JStr ''frontend''),
                   (''dynamoNamespace'', JStr (name config)),
                   (''replicas'', JNum 1)];
          spec1 = (if routerMode config \<noteq> ''none''
                   then push spec0 (''router-mode'', JStr (routerMode config)) else spec0);
          spec2 = (if hfTokenSecret config \<noteq> []
                   then push spec1 (''envFromSecret'', JStr (hfTokenSecret config)) else spec1)
      in spec2)"

text \<open>The limits and the requests object of a resource request (they are built alike).\<close>

definition resourceEntries :: "ResourceRequest \<Rightarrow> (string \<times> jvalue) list" where
  "resourceEntries r =
     [(''gpu'', JStr (showInt (gpu r)))] @
     (case memory r of
        None \<Rightarrow> []
      | Some m \<Rightarrow> if m \<noteq> [] then [(''memory'', JStr m)] else [])"

text \<open>One step of the \<^verbatim>\<open>forEach\<close> over the entries of \<open>engineArgs\<close>.\<close>

fun pushEngineArg :: "string list \<Rightarrow> string \<times> jvalue \<Rightarrow> string list" where
  "pushEngineArg args (key, JBool b) = (if b then push args (''--'' @ key) else args)"
| "pushEngineArg args (key, v) = push args (''--'' @ key @ '' '' @ toStringJ v)"

text \<open>The array \<^verbatim>\<open>args\<close> that \<^verbatim>\<open>generateWorkerSpec\<close> fills, push by push.\<close>

definition workerArgs :: "DeploymentConfig \<Rightarrow> string list" where
  "workerArgs config =
     (let args0 = [];
          args1 = push args0 (''python3 -m dynamo.'' @ engine config);
          args2 = push args1 (''--model '' @ modelId config);
          args3 = (case servedModelName config of
                     None \<Rightarrow> args2
                   | Some s \<Rightarrow> if s \<noteq> [] then push args2 (''--served-model-name '' @ s)
                               else args2);
          args4 = (if enforceEager config then push args3 ''--enforce-eager'' else args3);
          args5 = (if enablePrefixCaching config then push args4 ''--enable-prefix-caching''
                   else args4);
          args6 = (if trustRemoteCode config then push args5 ''--trust-remote-code''
                   else args5);
          args7 = (case contextLength config of
                     None \<Rightarrow> args6
                   | Some n \<Rightarrow> if n \<noteq> 0 then push args6 (''--max-model-len '' @ showInt n)
                               else args6);
          args8 = (case engineArgs config of
                     None \<Rightarrow> args7
                   | Some entries \<Rightarrow> foldl pushEngineArg args7 entries)
      in args8)"

definition generateWorkerSpec :: "DeploymentConfig \<Rightarrow> (string \<times> jvalue) list" where
  "generateWorkerSpec config =
     (let base0 = [(''componentType'', JStr ''worker''),
                   (''dynamoNamespace'', JStr (name config)),
                   (''replicas'', JNum (replicas config))];
          base1 = (if hfTokenSecret config \<noteq> []
                   then push base0 (''envFromSecret'', JStr (hfTokenSecret config)) else base0);
          base2 = (case resources config of
                     None \<Rightarrow> base1
                   | Some r \<Rightarrow>
                       push base1 (''resources'',
                         JObj [(''limits'', JObj (resourceEntries r)),
                               (''requests'', JObj (resourceEntries r))]));
          baseSpec = push base2 (''extraPodSpec'',
                       JObj [(''mainContainer'',
                         JObj [(''workingDir'',
                                  JStr (''/workspace/examples/backends/'' @ engine config)),
                               (''command'', JArr [JStr ''/bin/sh'', JStr ''-c'']),
                               (''args'', JArr [JStr (joinWith '' '' (workerArgs config))])])])
      in if engine config = ''vllm'' then [(''VllmWorker'', JObj baseSpec)]
         else if engine config = ''sglang'' then [(''SglangWorker'', JObj baseSpec)]
         else if engine config = ''trtllm'' then [(''TrtllmWorker'', JObj baseSpec)]
         else [(''VllmWorker'', JObj baseSpec)])"

definition generateDynamoManifest :: "DeploymentConfig \<Rightarrow> DynamoManifest" where
  "generateDynamoManifest config =
     (let workerSpec = generateWorkerSpec config;
          frontendSpec = generateFrontendSpec config;
          services = [(''Frontend'', JObj frontendSpec)] @ workerSpec
      in \<lparr> apiVersion = ''nvidia.com/v1alpha1'',
           kind = ''DynamoGraphDeployment'',
           metadata = Some
             \<lparr> Metadata.name = name config,
               Metadata.namespace = namespace config,
               labels = Some
                 [(''app.kubernetes.io/name'', ''kubefoundry''),
                  (''app.kubernetes.io/instance'', name config),
                  (''app.kubernetes.io/managed-by'', ''kubefoundry''),
                  (''kubefoundry.io/provider'', ''dynamo'')] \<rparr>,
           spec = Some [(''backendFramework'', JStr (engine config)),
                        (''services'', JObj services)] \<rparr>)"

definition validateManifest :: "DynamoManifest \<Rightarrow> ValidationReport" where
  "validateManifest manifest =
     (let errors0 = [];
          errors1 = (if apiVersion manifest = [] \<or> apiVersion manifest \<noteq> ''nvidia.com/v1alpha1''
                     then push errors0 ''Invalid or missing apiVersion'' else errors0);
          errors2 = (if kind manifest = [] \<or> kind manifest \<noteq> ''DynamoGraphDeployment''
                     then push errors1 ''Invalid or missing kind'' else errors1);
          errors3 = (if (case metadata manifest of
                           None \<Rightarrow> True | Some md \<Rightarrow> Metadata.name md = [])
                     then push errors2 ''Missing metadata.name'' else errors2);
          errors4 = (if (case metadata manifest of
                           None \<Rightarrow> True | Some md \<Rightarrow> Metadata.namespace md = [])
                     then push errors3 ''Missing metadata.namespace'' else errors3);
          errors5 = (if spec manifest = None then push errors4 ''Missing spec'' else errors4);
          services = (case spec manifest of
                        None \<Rightarrow> None | Some sp \<Rightarrow> map_of sp ''services'');
          errors6 =
            (case services of
               None \<Rightarrow> push errors5 ''Missing spec.services''
             | Some sv \<Rightarrow>
                 if \<not> truthy sv then push errors5 ''Missing spec.services''
                 else
                   (let errors5a =
                          (if \<not> truthyOpt (getProp sv ''Frontend'')
                           then push errors5 ''Missing Frontend in spec.services''
                           else errors5);
                        hasWorker = (truthyOpt (getProp sv ''VllmWorker'')
                                   \<or> truthyOpt (getProp sv ''SglangWorker'')
                                   \<or> truthyOpt (getProp sv ''TrtllmWorker''))
                    in if \<not> hasWorker
                       then push errors5a
                         ''Missing worker spec (VllmWorker, SglangWorker, or TrtllmWorker) in spec.services''
                       else errors5a))
      in \<lparr> valid = (errors6 = []), errors = errors6 \<rparr>)"

text \<open>The entries of \<^verbatim>\<open>spec.services\<close> of a manifest (none when the map is absent).\<close>

definition servicesOf :: "DynamoManifest \<Rightarrow> (string \<times> jvalue) list" where
  "servicesOf manifest =
     (case spec manifest of
        None \<Rightarrow> []
      | Some sp \<Rightarrow> (case map_of sp ''services'' of Some (JObj kvs) \<Rightarrow> kvs | _ \<Rightarrow> []))"

section \<open>Route handlers and their collaborators\<close>

text \<open>
  The handlers of \<^verbatim>\<open>hono-app.ts\<close> call the Helm service, the Kubernetes service and
  the provider registry. These collaborators are a parameter of the model, the \<open>World\<close>:
  each of its operations receives the calls the handler has made so far and gives the
  answer to the next one, so the same operation may answer differently as the run goes on.
  A handler returns its outcome together with the calls it made, in order. The field
  \<^verbatim>\<open>output\<close> of a report is named \<open>outputText\<close>, the former being a keyword. A Helm operation
  reports failure through the \<open>success\<close> flag of its result, which is what the handlers
  read. Calls to the logger are left out. A handler starts where the parameter schema has
  accepted the provider id; the validated deployment config has the type of the config of
  the Dynamo generator.
\<close>

datatype exn = HTTPException int string | Error string

datatype 'a outcome = Returned int 'a | Raised exn

text \<open>
  The global error handler \<^verbatim>\<open>app.onError\<close>: what a raised error becomes on its way to
  the client, a status code and a body with a message and that code.
\<close>

record ErrorBody =
  message :: string
  statusCode :: int

fun onError :: "exn \<Rightarrow> int \<times> ErrorBody" where
  "onError (HTTPException status msg) =
     (status, \<lparr> ErrorBody.message = msg, statusCode = status \<rparr>)"
| "onError (Error msg) =
     (500, \<lparr> ErrorBody.message = (if msg \<noteq> [] then msg else ''Internal Server Error''),
             statusCode = 500 \<rparr>)"

record HelmRepo =
  name :: string
  url :: string

record HelmChart =
  name :: string
  chart :: string
  version :: "string option"
  namespace :: string
  createNamespace :: "bool option"

record Provider =
  name :: string
  helmRepos :: "HelmRepo list"
  helmCharts :: "HelmChart list"

record HelmStatus =
  available :: bool
  version :: "string option"
  error :: "string option"

record HelmResult =
  success :: bool
  stdout :: string
  stderr :: string

record ProviderInstallation =
  installed :: bool
  message :: "string option"
  crdFound :: "bool option"
  operatorRunning :: "bool option"

record StepOutcome =
  step :: string
  result :: HelmResult

record ProviderInstallOutcome =
  success :: bool
  results :: "StepOutcome list"

record StepReport =
  step :: string
  success :: bool
  outputText :: string
  error :: string

record ChartReport =
  chart :: string
  success :: bool
  outputText :: string
  error :: "string option"

record InstallResponse =
  success :: bool
  message :: string
  alreadyInstalled :: "bool option"
  installationStatus :: "ProviderInstallation option"
  results :: "StepReport list option"

record ChartsResponse =
  success :: bool
  message :: string
  installationStatus :: ProviderInstallation
  results :: "ChartReport list"

record NodeGpuInfo =
  nodeName :: string
  totalGpus :: int
  allocatedGpus :: int
  availableGpus :: int

record ClusterGpuCapacity =
  totalGpus :: int
  allocatedGpus :: int
  availableGpus :: int
  maxContiguousAvailable :: int
  nodes :: "NodeGpuInfo list"

record GpuFitResult =
  fits :: bool
  warnings :: "string list"

record Model =
  id :: string
  minGpus :: "int option"

datatype ConfigValidation = Invalid "string list" | Valid DeploymentConfig

record CreateDeploymentResponse =
  message :: string
  name :: string
  namespace :: string
  warnings :: "string list option"

datatype Call =
    CheckHelmAvailable
  | CheckProviderInstallation string
  | InstallProvider "HelmRepo list" "HelmChart list"
  | RepoAdd HelmRepo
  | RepoUpdate
  | Upgrade HelmChart
  | Uninstall string string
  | GetClusterGpuCapacity
  | CreateDeployment DeploymentConfig

text \<open>
  \<open>validateConfig\<close> is the validator of the active provider; \<open>models\<close> is the content of
  \<^verbatim>\<open>data/models.json\<close>; \<open>validateGpuFit\<close> and \<open>formatGpuWarnings\<close> are the two helpers of
  \<^verbatim>\<open>services/gpuValidation\<close>. Each of them is a field of the world.
\<close>

record World =
  providerRegistry :: "string \<Rightarrow> Provider option"
  checkHelmAvailable :: "Call list \<Rightarrow> HelmStatus"
  checkProviderInstallation :: "Call list \<Rightarrow> string \<Rightarrow> ProviderInstallation"
  installProvider :: "Call list \<Rightarrow> HelmRepo list \<Rightarrow> HelmChart list \<Rightarrow> ProviderInstallOutcome"
  repoAdd :: "Call list \<Rightarrow> HelmRepo \<Rightarrow> HelmResult"
  repoUpdate :: "Call list \<Rightarrow> HelmResult"
  upgrade :: "Call list \<Rightarrow> HelmChart \<Rightarrow> HelmResult"
  uninstall :: "Call list \<Rightarrow> string \<Rightarrow> string \<Rightarrow> HelmResult"
  validateConfig :: "jvalue \<Rightarrow> ConfigValidation"
  getClusterGpuCapacity :: "Call list \<Rightarrow> exn + ClusterGpuCapacity"
  models :: "Model list"
  validateGpuFit :: "DeploymentConfig \<Rightarrow> ClusterGpuCapacity \<Rightarrow> int \<Rightarrow> GpuFitResult"
  formatGpuWarnings :: "GpuFitResult \<Rightarrow> string list"
  createDeployment :: "Call list \<Rightarrow> DeploymentConfig \<Rightarrow> exn + unit"

text \<open>An optional string inside a template literal.\<close>

fun optStr :: "string option \<Rightarrow> string" where
  "optStr None = ''undefined''"
| "optStr (Some s) = s"

subsection \<open>\<^verbatim>\<open>POST /deployments\<close>\<close>

definition createDeploymentRoute ::
    "World \<Rightarrow> jvalue \<Rightarrow> CreateDeploymentResponse outcome \<times> Call list" where
  "createDeploymentRoute w body =
     (case validateConfig w body of
        Invalid errs \<Rightarrow>
          (Raised (HTTPException 400 (''Validation error: '' @ joinWith '', '' errs)), [])
      | Valid config \<Rightarrow>
          (let log1 = [GetClusterGpuCapacity];
               gpuWarnings =
                 (case getClusterGpuCapacity w [] of
                    Inl gpuError \<Rightarrow> []
                  | Inr capacity \<Rightarrow>
                      (let model = find (\<lambda>m. Model.id m = modelId config) (models w);
                           modelMinGpus =
                             (case model of None \<Rightarrow> 1 | Some m \<Rightarrow> orElse (minGpus m) 1);
                           gpuFitResult = validateGpuFit w config capacity modelMinGpus
                       in if \<not> fits gpuFitResult then formatGpuWarnings w gpuFitResult
                          else []));
               log2 = push log1 (CreateDeployment config)
           in case createDeployment w log1 config of
                Inl e \<Rightarrow> (Raised e, log2)
              | Inr u \<Rightarrow>
                  (Returned 201
                     \<lparr> CreateDeploymentResponse.message = ''Deployment created successfully'',
                       CreateDeploymentResponse.name = DeploymentConfig.name config,
                       CreateDeploymentResponse.namespace = DeploymentConfig.namespace config,
                       warnings = (if length gpuWarnings > 0 then Some gpuWarnings else None) \<rparr>,
                   log2)))"

subsection \<open>\<^verbatim>\<open>POST /installation/providers/:id/install\<close>\<close>

definition stepReport :: "StepOutcome \<Rightarrow> StepReport" where
  "stepReport r =
     \<lparr> StepReport.step = StepOutcome.step r,
       StepReport.success = HelmResult.success (result r),
       StepReport.outputText = stdout (result r),
       StepReport.error = stderr (result r) \<rparr>"

definition installRoute :: "World \<Rightarrow> string \<Rightarrow> InstallResponse outcome \<times> Call list" where
  "installRoute w ident =
     (case providerRegistry w ident of
        None \<Rightarrow> (Raised (HTTPException 404 (''Provider not found: '' @ ident)), [])
      | Some provider \<Rightarrow>
          (let helmStatus = checkHelmAvailable w [];
               log1 = [CheckHelmAvailable]
           in if \<not> available helmStatus then
                (Raised (HTTPException 400
                   (''Helm CLI not available: '' @ optStr (HelmStatus.error helmStatus)
                    @ ''. Please install Helm or use the manual installation commands.'')),
                 log1)
              else
                (let currentStatus = checkProviderInstallation w log1 ident;
                     log2 = push log1 (CheckProviderInstallation ident)
                 in if installed currentStatus then
                      (Returned 200
                         \<lparr> InstallResponse.success = True,
                           InstallResponse.message =
                             Provider.name provider @ '' is already installed'',
                           alreadyInstalled = Some True,
                           InstallResponse.installationStatus = None,
                           InstallResponse.results = None \<rparr>,
                       log2)
                    else
                      (let result' = installProvider w log2 (helmRepos provider)
                                       (helmCharts provider);
                           log3 = push log2
                                    (InstallProvider (helmRepos provider) (helmCharts provider))
                       in if ProviderInstallOutcome.success result' then
                            (let verifyStatus = checkProviderInstallation w log3 ident;
                                 log4 = push log3 (CheckProviderInstallation ident)
                             in (Returned 200
                                   \<lparr> InstallResponse.success = True,
                                     InstallResponse.message =
                                       Provider.name provider @ '' installed successfully'',
                                     alreadyInstalled = None,
                                     InstallResponse.installationStatus = Some verifyStatus,
                                     InstallResponse.results =
                                       Some (map stepReport
                                               (ProviderInstallOutcome.results result')) \<rparr>,
                                 log4))
                          else
                            (let failedStep =
                                   find (\<lambda>r. \<not> HelmResult.success (result r))
                                     (ProviderInstallOutcome.results result')
                             in (Raised (HTTPException 500
                                   (''Installation failed at step \"''
                                    @ optStr (map_option StepOutcome.step failedStep)
                                    @ ''\": ''
                                    @ optStr (map_option (\<lambda>r. stderr (result r)) failedStep))),
                                 log3))))))"

subsection \<open>\<^verbatim>\<open>POST /installation/providers/:id/upgrade\<close>\<close>

definition chartReport :: "string \<Rightarrow> HelmResult \<Rightarrow> ChartReport" where
  "chartReport chartName r =
     \<lparr> ChartReport.chart = chartName,
       ChartReport.success = HelmResult.success r,
       ChartReport.outputText = stdout r,
       ChartReport.error = (if stderr r \<noteq> [] then Some (stderr r) else None) \<rparr>"

text \<open>The loop over the repositories; the results of \<^verbatim>\<open>repoAdd\<close> are not read.\<close>

fun repoAddAll :: "World \<Rightarrow> Call list \<Rightarrow> HelmRepo list \<Rightarrow> Call list" where
  "repoAddAll w calls [] = calls"
| "repoAddAll w calls (repo # rest) =
     (let ignored = repoAdd w calls repo
      in repoAddAll w (push calls (RepoAdd repo)) rest)"

text \<open>The loop over the charts: the first chart whose upgrade fails ends it with a throw.\<close>

fun upgradeCharts ::
    "World \<Rightarrow> Call list \<Rightarrow> ChartReport list \<Rightarrow> HelmChart list
       \<Rightarrow> (exn + ChartReport list) \<times> Call list" where
  "upgradeCharts w calls results' [] = (Inr results', calls)"
| "upgradeCharts w calls results' (c # rest) =
     (let r = upgrade w calls c;
          calls' = push calls (Upgrade c);
          results'' = push results' (chartReport (HelmChart.name c) r)
      in if \<not> HelmResult.success r then
           (Inl (HTTPException 500
              (''Upgrade failed for chart \"'' @ HelmChart.name c @ ''\": '' @ stderr r)),
            calls')
         else upgradeCharts w calls' results'' rest)"

definition upgradeRoute :: "World \<Rightarrow> string \<Rightarrow> ChartsResponse outcome \<times> Call list" where
  "upgradeRoute w ident =
     (case providerRegistry w ident of
        None \<Rightarrow> (Raised (HTTPException 404 (''Provider not found: '' @ ident)), [])
      | Some provider \<Rightarrow>
          (let helmStatus = checkHelmAvailable w [];
               log1 = [CheckHelmAvailable]
           in if \<not> available helmStatus then
                (Raised (HTTPException 400
                   (''Helm CLI not available: '' @ optStr (HelmStatus.error helmStatus)
                    @ ''. Please install Helm or use the manual upgrade commands.'')),
                 log1)
              else
                (let charts = helmCharts provider;
                     repos = helmRepos provider;
                     log2 = repoAddAll w log1 repos;
                     ignored = repoUpdate w log2;
                     log3 = push log2 RepoUpdate
                 in case upgradeCharts w log3 [] charts of
                      (Inl e, log4) \<Rightarrow> (Raised e, log4)
                    | (Inr results', log4) \<Rightarrow>
                        (let verifyStatus = checkProviderInstallation w log4 ident;
                             log5 = push log4 (CheckProviderInstallation ident)
                         in (Returned 200
                               \<lparr> ChartsResponse.success = True,
                                 ChartsResponse.message =
                                   Provider.name provider @ '' upgraded successfully'',
                                 ChartsResponse.installationStatus = verifyStatus,
                                 ChartsResponse.results = results' \<rparr>,
                             log5)))))"

subsection \<open>\<^verbatim>\<open>POST /installation/providers/:id/uninstall\<close>\<close>

text \<open>The loop over the reversed chart list: every result is recorded, none ends it.\<close>

fun uninstallCharts ::
    "World \<Rightarrow> Call list \<Rightarrow> ChartReport list \<Rightarrow> HelmChart list
       \<Rightarrow> ChartReport list \<times> Call list" where
  "uninstallCharts w calls results' [] = (results', calls)"
| "uninstallCharts w calls results' (c # rest) =
     (let r = uninstall w calls (HelmChart.name c) (HelmChart.namespace c);
          calls' = push calls (Uninstall (HelmChart.name c) (HelmChart.namespace c));
          results'' = push results' (chartReport (HelmChart.name c) r)
      in uninstallCharts w calls' results'' rest)"

definition uninstallRoute :: "World \<Rightarrow> string \<Rightarrow> ChartsResponse outcome \<times> Call list" where
  "uninstallRoute w ident =
     (case providerRegistry w ident of
        None \<Rightarrow> (Raised (HTTPException 404 (''Provider not found: '' @ ident)), [])
      | Some provider \<Rightarrow>
          (let helmStatus = checkHelmAvailable w [];
               log1 = [CheckHelmAvailable]
           in if \<not> available helmStatus then
                (Raised (HTTPException 400
                   (''Helm CLI not available: '' @ optStr (HelmStatus.error helmStatus))),
                 log1)
              else
                (let charts = helmCharts provider
                 in case uninstallCharts w log1 [] (rev charts) of
                      (results', log2) \<Rightarrow>
                        (let verifyStatus = checkProviderInstallation w log2 ident;
                             log3 = push log2 (CheckProviderInstallation ident)
                         in (Returned 200
                               \<lparr> ChartsResponse.success = True,
                                 ChartsResponse.message =
                                   Provider.name provider @ '' uninstalled'',
                                 ChartsResponse.installationStatus = verifyStatus,
                                 ChartsResponse.results = results' \<rparr>,
                             log3)))))"

text \<open>The calls that run a provisioning step of the package manager.\<close>

fun isProvisioning :: "Call \<Rightarrow> bool" where
  "isProvisioning (InstallProvider repos charts) = True"
| "isProvisioning (RepoAdd repo) = True"
| "isProvisioning RepoUpdate = True"
| "isProvisioning (Upgrade c) = True"
| "isProvisioning (Uninstall n ns) = True"
| "isProvisioning c = False"

section \<open>Cost estimation service\<close>

text \<open>
  The embedding follows \<^verbatim>\<open>services/costEstimation.ts\<close> and the types of
  \<^verbatim>\<open>shared/types/costs.ts\<close>. Replica and GPU counts are JavaScript numbers that the
  route schema restricts to integers; they are modelled as \<^typ>\<open>int\<close>. Rates, ratios and
  percentages are double-precision numbers, modelled below. An optional field of the source
  is an \<^typ>\<open>'a option\<close>, with \<open>None\<close> for \<^verbatim>\<open>undefined\<close>.
\<close>

subsection \<open>Double-precision numbers\<close>

text \<open>
  A JavaScript number is an IEEE 754 double: a finite value, which is kept as the rational
  it denotes, an infinity, or NaN. The sign of zero is not kept. Every operation computes
  the exact result and rounds it to the nearest double, ties to the even significand:
  53 bits of significand, the smallest exponent that of the subnormal numbers, and
  overflow to an infinity from \<open>2 ^ 1024\<close> on.
\<close>

datatype number = Num rat | PosInfinity | NegInfinity | NaN

text \<open>The number of binary digits of a positive integer.\<close>

function bitLength :: "int \<Rightarrow> int" where
  "bitLength n = (if n \<le> 0 then 0 else 1 + bitLength (n div 2))"
  by pat_completeness auto
termination
  by (relation "measure nat") auto

definition pow2 :: "int \<Rightarrow> rat" where
  "pow2 e = (if 0 \<le> e then 2 ^ nat e else 1 / 2 ^ nat (- e))"

text \<open>
  For a positive rational \<open>x\<close>, the exponent \<open>d\<close> with \<open>2 ^ d \<le> x < 2 ^ (d + 1)\<close>: the
  difference of the bit lengths of numerator and denominator, or one less.
\<close>

definition floorLog2 :: "rat \<Rightarrow> int" where
  "floorLog2 x =
     (let d = bitLength (fst (quotient_of x)) - bitLength (snd (quotient_of x))
      in if pow2 d \<le> x then d else d - 1)"

definition roundHalfEven :: "rat \<Rightarrow> int" where
  "roundHalfEven x =
     (let f = \<lfloor>x\<rfloor>; d = x - of_int f
      in if d < 1 / 2 then f else if 1 / 2 < d then f + 1 else if even f then f else f + 1)"

definition roundToDouble :: "rat \<Rightarrow> number" where
  "roundToDouble x =
     (if x = 0 then Num 0
      else
        (let a = \<bar>x\<bar>;
             e = max (floorLog2 a - 52) (- 1074);
             r = of_int (roundHalfEven (a / pow2 e)) * pow2 e
         in if 1024 \<le> floorLog2 r then (if 0 < x then PosInfinity else NegInfinity)
            else Num (if 0 < x then r else - r)))"

definition numberOfInt :: "int \<Rightarrow> number" where
  "numberOfInt i = roundToDouble (of_int i)"

fun mulNumber :: "number \<Rightarrow> number \<Rightarrow> number" where
  "mulNumber (Num a) (Num b) = roundToDouble (a * b)"
| "mulNumber NaN y = NaN"
| "mulNumber x NaN = NaN"
| "mulNumber (Num a) y =
     (if a = 0 then NaN else if (0 < a) = (y = PosInfinity) then PosInfinity else NegInfinity)"
| "mulNumber x (Num b) =
     (if b = 0 then NaN else if (0 < b) = (x = PosInfinity) then PosInfinity else NegInfinity)"
| "mulNumber x y = (if x = y then PosInfinity else NegInfinity)"

fun divNumber :: "number \<Rightarrow> number \<Rightarrow> number" where
  "divNumber (Num a) (Num b) =
     (if b = 0
      then (if a = 0 then NaN else if 0 < a then PosInfinity else NegInfinity)
      else roundToDouble (a / b))"
| "divNumber NaN y = NaN"
| "divNumber x NaN = NaN"
| "divNumber (Num a) y = Num 0"
| "divNumber x (Num b) =
     (if (0 \<le> b) = (x = PosInfinity) then PosInfinity else NegInfinity)"
| "divNumber x y = NaN"

text \<open>The test \<^verbatim>\<open>x > 0\<close> and the truthiness of a number.\<close>

fun greaterThanZero :: "number \<Rightarrow> bool" where
  "greaterThanZero (Num a) = (0 < a)"
| "greaterThanZero PosInfinity = True"
| "greaterThanZero x = False"

fun truthyNumber :: "number \<Rightarrow> bool" where
  "truthyNumber (Num a) = (a \<noteq> 0)"
| "truthyNumber NaN = False"
| "truthyNumber x = True"

subsection \<open>The service\<close>

datatype CloudProvider = Aws | Azure | Gcp | OnPrem | NoProvider

datatype Mode = Aggregated | Disaggregated

type_synonym GpuType = string

record CostEstimateInput =
  mode :: Mode
  replicas :: int
  gpusPerReplica :: int
  prefillReplicas :: "int option"
  decodeReplicas :: "int option"
  prefillGpus :: "int option"
  decodeGpus :: "int option"
  cloudProvider :: "CloudProvider option"
  gpuType :: "GpuType option"
  customHourlyRate :: "number option"

record CostSettings =
  settingsCloudProvider :: CloudProvider
  settingsGpuType :: GpuType
  settingsCustomHourlyRate :: "number option"

record ResourceBreakdown =
  workerInstances :: "int option"
  gpusPerWorker :: "int option"
  prefillInstances :: "int option"
  prefillGpusPerInstance :: "int option"
  decodeInstances :: "int option"
  decodeGpusPerInstance :: "int option"
  totalGpus :: int
  totalInstances :: int

record CostEstimate =
  resources :: ResourceBreakdown
  hasActualCosts :: bool
  hourlyRate :: "number option"
  dailyRate :: "number option"
  monthlyRate :: "number option"
  estimateGpuType :: "GpuType option"
  estimateCloudProvider :: "CloudProvider option"
  gpuMultiplier :: number
  baselineGpus :: int
  additionalGpus :: int
  percentageIncrease :: number

text \<open>
  The pricing table \<^verbatim>\<open>GPU_PRICING\<close>, in USD per GPU-hour. Each entry is the double
  that its decimal literal denotes.
\<close>

definition zeroPricing :: "(GpuType \<times> number) list" where
  "zeroPricing =
     [(''nvidia-a100-40gb'', Num 0), (''nvidia-a100-80gb'', Num 0),
      (''nvidia-h100'', Num 0), (''nvidia-h200'', Num 0),
      (''nvidia-l40s'', Num 0), (''nvidia-l4'', Num 0),
      (''nvidia-t4'', Num 0), (''nvidia-v100'', Num 0),
      (''nvidia-a10g'', Num 0), (''unknown'', Num 0)]"

fun GPU_PRICING :: "CloudProvider \<Rightarrow> (GpuType \<times> number) list" where
  "GPU_PRICING Aws =
     [(''nvidia-a100-40gb'', roundToDouble (340 / 100)), (''nvidia-a100-80gb'', roundToDouble (410 / 100)),
      (''nvidia-h100'', roundToDouble (510 / 100)), (''nvidia-h200'', roundToDouble (650 / 100)),
      (''nvidia-l40s'', roundToDouble (180 / 100)), (''nvidia-l4'', roundToDouble (80 / 100)),
      (''nvidia-t4'', roundToDouble (53 / 100)), (''nvidia-v100'', roundToDouble (126 / 100)),
      (''nvidia-a10g'', roundToDouble (121 / 100)), (''unknown'', roundToDouble (250 / 100))]"
| "GPU_PRICING Azure =
     [(''nvidia-a100-40gb'', roundToDouble (340 / 100)), (''nvidia-a100-80gb'', roundToDouble (367 / 100)),
      (''nvidia-h100'', roundToDouble (500 / 100)), (''nvidia-h200'', roundToDouble (620 / 100)),
      (''nvidia-l40s'', roundToDouble (170 / 100)), (''nvidia-l4'', roundToDouble (75 / 100)),
      (''nvidia-t4'', roundToDouble (52 / 100)), (''nvidia-v100'', roundToDouble (122 / 100)),
      (''nvidia-a10g'', roundToDouble (110 / 100)), (''unknown'', roundToDouble (240 / 100))]"
| "GPU_PRICING Gcp =
     [(''nvidia-a100-40gb'', roundToDouble (317 / 100)), (''nvidia-a100-80gb'', roundToDouble (367 / 100)),
      (''nvidia-h100'', roundToDouble (507 / 100)), (''nvidia-h200'', roundToDouble (630 / 100)),
      (''nvidia-l40s'', roundToDouble (165 / 100)), (''nvidia-l4'', roundToDouble (70 / 100)),
      (''nvidia-t4'', roundToDouble (35 / 100)), (''nvidia-v100'', roundToDouble (110 / 100)),
      (''nvidia-a10g'', roundToDouble (100 / 100)), (''unknown'', roundToDouble (230 / 100))]"
| "GPU_PRICING OnPrem = zeroPricing"
| "GPU_PRICING NoProvider = zeroPricing"

definition calculateResourceBreakdown :: "CostEstimateInput \<Rightarrow> ResourceBreakdown" where
  "calculateResourceBreakdown input =
     (if mode input = Disaggregated then
        (let prefillInstances' = orElse (prefillReplicas input) 1;
             decodeInstances' = orElse (decodeReplicas input) 1;
             prefillGpusPerInstance' = orElse (prefillGpus input) (gpusPerReplica input);
             decodeGpusPerInstance' = orElse (decodeGpus input) (gpusPerReplica input);
             totalGpus' = (prefillInstances' * prefillGpusPerInstance') +
                          (decodeInstances' * decodeGpusPerInstance')
         in \<lparr> workerInstances = None, gpusPerWorker = None,
              prefillInstances = Some prefillInstances',
              prefillGpusPerInstance = Some prefillGpusPerInstance',
              decodeInstances = Some decodeInstances',
              decodeGpusPerInstance = Some decodeGpusPerInstance',
              totalGpus = totalGpus',
              totalInstances = prefillInstances' + decodeInstances' \<rparr>)
      else
        (let workerInstances' = replicas input;
             gpusPerWorker' = gpusPerReplica input;
             totalGpus' = workerInstances' * gpusPerWorker'
         in \<lparr> workerInstances = Some workerInstances', gpusPerWorker = Some gpusPerWorker',
              prefillInstances = None, prefillGpusPerInstance = None,
              decodeInstances = None, decodeGpusPerInstance = None,
              totalGpus = totalGpus',
              totalInstances = workerInstances' \<rparr>))"

text \<open>
  \<^verbatim>\<open>getHourlyRate\<close>. The GPU type reaches the service as an arbitrary string (the route
  casts it), so a key that the table does not hold yields \<^verbatim>\<open>undefined\<close>, which is not
  greater than zero.
\<close>

definition getHourlyRate ::
    "CloudProvider option \<Rightarrow> GpuType option \<Rightarrow> number option \<Rightarrow> number option" where
  "getHourlyRate provider gpuTy customRate =
     (if provider = Some OnPrem \<and> customRate \<noteq> None then customRate
      else case provider of
             None \<Rightarrow> None
           | Some NoProvider \<Rightarrow> None
           | Some p \<Rightarrow>
               (case map_of (GPU_PRICING p) (orElse gpuTy ''unknown'') of
                  None \<Rightarrow> None
                | Some rate \<Rightarrow> if greaterThanZero rate then Some rate else None))"

text \<open>
  \<^verbatim>\<open>calculateCostEstimate\<close>. The field \<^verbatim>\<open>relativeDescription\<close> is a display string
  built with \<^verbatim>\<open>toFixed\<close>; it takes no part in any other field and is left out.
\<close>

definition calculateCostEstimate ::
    "CostEstimateInput \<Rightarrow> CostSettings option \<Rightarrow> CostEstimate" where
  "calculateCostEstimate input costSettings =
     (let resources' = calculateResourceBreakdown input;
          cloudProvider' = orElse (cloudProvider input)
                             (orElse (map_option settingsCloudProvider costSettings) NoProvider);
          gpuType' = orElse (gpuType input)
                       (orElse (map_option settingsGpuType costSettings) ''unknown'');
          customHourlyRate' =
            (case customHourlyRate input of
               Some r \<Rightarrow> Some r
             | None \<Rightarrow> Option.bind costSettings settingsCustomHourlyRate);
          baselineGpus' = gpusPerReplica input;
          additionalGpus' = totalGpus resources' - baselineGpus';
          percentageIncrease' =
            (if baselineGpus' > 0
             then mulNumber
                    (divNumber (numberOfInt (totalGpus resources' - baselineGpus'))
                       (numberOfInt baselineGpus'))
                    (Num 100)
             else Num 0);
          gpuMultiplier' =
            (if baselineGpus' > 0
             then divNumber (numberOfInt (totalGpus resources')) (numberOfInt baselineGpus')
             else Num 1);
          perGpuHourlyRate = getHourlyRate (Some cloudProvider') (Some gpuType') customHourlyRate';
          hasActualCosts' =
            (case perGpuHourlyRate of None \<Rightarrow> False | Some r \<Rightarrow> greaterThanZero r);
          hourlyRate' =
            (case perGpuHourlyRate of
               None \<Rightarrow> None
             | Some r \<Rightarrow> if hasActualCosts' \<and> truthyNumber r
                         then Some (mulNumber (numberOfInt (totalGpus resources')) r)
                         else None)
      in \<lparr> resources = resources',
           hasActualCosts = hasActualCosts',
           hourlyRate = hourlyRate',
           dailyRate = map_option (\<lambda>h. mulNumber h (Num 24)) hourlyRate',
           monthlyRate = map_option (\<lambda>h. mulNumber h (Num 730)) hourlyRate',
           estimateGpuType = (if hasActualCosts' then Some gpuType' else None),
           estimateCloudProvider = (if hasActualCosts' then Some cloudProvider' else None),
           gpuMultiplier = gpuMultiplier',
           baselineGpus = baselineGpus',
           additionalGpus = additionalGpus',
           percentageIncrease = percentageIncrease' \<rparr>)"

text \<open>The provider that \<^verbatim>\<open>calculateCostEstimate\<close> resolves from input and settings.\<close>

definition resolvedCloudProvider :: "CostEstimateInput \<Rightarrow> CostSettings option \<Rightarrow> CloudProvider" where
  "resolvedCloudProvider input costSettings =
     orElse (cloudProvider input)
       (orElse (map_option settingsCloudProvider costSettings) NoProvider)"

text \<open>
  Sample requests. \<open>requestAws\<close> and \<open>requestUnpriced\<close> are the example scenario of the
  specification (two replicas of four GPUs, with and without a priced provider);
  \<open>requestDefaults\<close> omits every disaggregated field; \<open>requestThirds\<close> is a
  disaggregated request of eight GPUs over a base of three.
\<close>

definition requestAws :: CostEstimateInput where
  "requestAws =
     \<lparr> mode = Aggregated, replicas = 2, gpusPerReplica = 4, prefillReplicas = None,
       decodeReplicas = None, prefillGpus = None, decodeGpus = None,
       cloudProvider = Some Aws, gpuType = Some ''nvidia-a100-80gb'',
       customHourlyRate = None \<rparr>"

definition requestUnpriced :: CostEstimateInput where
  "requestUnpriced =
     \<lparr> mode = Aggregated, replicas = 2, gpusPerReplica = 4, prefillReplicas = None,
       decodeReplicas = None, prefillGpus = None, decodeGpus = None,
       cloudProvider = None, gpuType = None, customHourlyRate = None \<rparr>"

definition requestDefaults :: CostEstimateInput where
  "requestDefaults =
     \<lparr> mode = Disaggregated, replicas = 1, gpusPerReplica = 4, prefillReplicas = None,
       decodeReplicas = None, prefillGpus = None, decodeGpus = None,
       cloudProvider = None, gpuType = None, customHourlyRate = None \<rparr>"

definition requestThirds :: CostEstimateInput where
  "requestThirds =
     \<lparr> mode = Disaggregated, replicas = 1, gpusPerReplica = 3, prefillReplicas = None,
       decodeReplicas = None, prefillGpus = Some 5, decodeGpus = None,
       cloudProvider = Some NoProvider, gpuType = None, customHourlyRate = None \<rparr>"

section \<open>Sample deployment requests and the argument string as specified\<close>

text \<open>
  \<open>baseConfig\<close> is the configuration of the generator's test suite; \<open>configFalseFlag\<close>
  adds one free-form engine argument whose value is the boolean false.
\<close>

definition baseConfig :: DeploymentConfig where
  "baseConfig =
     \<lparr> DeploymentConfig.name = ''test-deployment'',
       DeploymentConfig.namespace = ''kubefoundry-system'',
       modelId = ''Qwen/Qwen3-0.6B'', engine = ''vllm'',
       DeploymentConfig.mode = ''aggregated'', servedModelName = None,
       routerMode = ''none'', DeploymentConfig.replicas = 1,
       hfTokenSecret = ''hf-token-secret'', contextLength = None, enforceEager = True,
       enablePrefixCaching = False, trustRemoteCode = False,
       DeploymentConfig.resources = None, engineArgs = None \<rparr>"

definition configFalseFlag :: DeploymentConfig where
  "configFalseFlag = baseConfig \<lparr> engineArgs := Some [(''disable-log-requests'', JBool False)] \<rparr>"

text \<open>
  The argument string in the words of the specification: the fixed sequence of flags,
  then the free-form engine arguments, "boolean-true flags emitted bare, all others emitted
  as \<^verbatim>\<open>--key value\<close>". These two definitions follow the specification, not the source.
\<close>

definition claimedEngineArg :: "string \<times> jvalue \<Rightarrow> string list" where
  "claimedEngineArg kv =
     (if snd kv = JBool True then [''--'' @ fst kv]
      else [''--'' @ fst kv @ '' '' @ toStringJ (snd kv)])"

definition claimedArgString :: "DeploymentConfig \<Rightarrow> string" where
  "claimedArgString config =
     joinWith '' ''
       ([''python3 -m dynamo.'' @ engine config, ''--model '' @ modelId config]
        @ (case servedModelName config of
             None \<Rightarrow> []
           | Some s \<Rightarrow> if s \<noteq> [] then [''--served-model-name '' @ s] else [])
        @ (if enforceEager config then [''--enforce-eager''] else [])
        @ (if enablePrefixCaching config then [''--enable-prefix-caching''] else [])
        @ (if trustRemoteCode config then [''--trust-remote-code''] else [])
        @ (case contextLength config of
             None \<Rightarrow> []
           | Some n \<Rightarrow> if n \<noteq> 0 then [''--max-model-len '' @ showInt n] else [])
        @ (case engineArgs config of
             None \<Rightarrow> []
           | Some entries \<Rightarrow> concat (map claimedEngineArg entries)))"

section \<open>Sample worlds\<close>

text \<open>
  A provider with one repository and the chart list \<open>[chartA, chartB, chartC]\<close>, and
  worlds to run the handlers in: \<open>quietWorld\<close>, where every operation succeeds and the
  provider is not installed; \<open>worldChartBFails\<close>, where every Helm operation on \<open>chart-b\<close>
  fails; \<open>worldInstallFails\<close>, where \<^verbatim>\<open>installProvider\<close> reports a failed step;
  \<open>worldInstalled\<close>, where the cluster reports the provider installed;
  \<open>worldUnreachable\<close>, where the GPU capacity query throws; \<open>worldCreateFails\<close>, where
  the creation of the deployment throws as well; and \<open>worldNoGpus\<close>, where no GPU is free.
\<close>

definition sampleRepo :: HelmRepo where
  "sampleRepo = \<lparr> HelmRepo.name = ''sample-repo'', url = ''https://charts.example.com/sample'' \<rparr>"

definition chartA :: HelmChart where
  "chartA = \<lparr> HelmChart.name = ''chart-a'', chart = ''sample-repo/chart-a'',
               HelmChart.version = None, HelmChart.namespace = ''default'',
               createNamespace = None \<rparr>"

definition chartB :: HelmChart where
  "chartB = \<lparr> HelmChart.name = ''chart-b'', chart = ''sample-repo/chart-b'',
               HelmChart.version = None, HelmChart.namespace = ''sample-system'',
               createNamespace = Some True \<rparr>"

definition chartC :: HelmChart where
  "chartC = \<lparr> HelmChart.name = ''chart-c'', chart = ''sample-repo/chart-c'',
               HelmChart.version = Some ''1.2.0'', HelmChart.namespace = ''sample-system'',
               createNamespace = None \<rparr>"

definition sampleProvider :: Provider where
  "sampleProvider = \<lparr> Provider.name = ''Sample'', helmRepos = [sampleRepo],
                       helmCharts = [chartA, chartB, chartC] \<rparr>"

definition okResult :: HelmResult where
  "okResult = \<lparr> HelmResult.success = True, stdout = ''done'', stderr = [] \<rparr>"

definition failResult :: HelmResult where
  "failResult = \<lparr> HelmResult.success = False, stdout = [], stderr = ''timed out'' \<rparr>"

definition quietWorld :: World where
  "quietWorld =
     \<lparr> providerRegistry = (\<lambda>i. if i = ''sample'' then Some sampleProvider else None),
       checkHelmAvailable = (\<lambda>calls. \<lparr> available = True, HelmStatus.version = Some ''v3.14.0'',
                                       HelmStatus.error = None \<rparr>),
       checkProviderInstallation =
         (\<lambda>calls i. \<lparr> installed = False, ProviderInstallation.message = None,
                       crdFound = Some False, operatorRunning = Some False \<rparr>),
       installProvider =
         (\<lambda>calls repos charts. \<lparr> ProviderInstallOutcome.success = True,
                                  ProviderInstallOutcome.results = [] \<rparr>),
       repoAdd = (\<lambda>calls repo. okResult),
       repoUpdate = (\<lambda>calls. okResult),
       upgrade = (\<lambda>calls c. okResult),
       uninstall = (\<lambda>calls n ns. okResult),
       validateConfig = (\<lambda>body. if body = JNull then Invalid [''Required''] else Valid baseConfig),
       getClusterGpuCapacity =
         (\<lambda>calls. Inr \<lparr> ClusterGpuCapacity.totalGpus = 8, ClusterGpuCapacity.allocatedGpus = 0,
                          ClusterGpuCapacity.availableGpus = 8, maxContiguousAvailable = 8,
                          nodes = [] \<rparr>),
       models = [],
       validateGpuFit =
         (\<lambda>config capacity minGpus.
            \<lparr> fits = (minGpus \<le> ClusterGpuCapacity.availableGpus capacity),
              GpuFitResult.warnings =
                (if minGpus \<le> ClusterGpuCapacity.availableGpus capacity then []
                 else [''Not enough GPUs available'']) \<rparr>),
       formatGpuWarnings = (\<lambda>r. GpuFitResult.warnings r),
       createDeployment = (\<lambda>calls config. Inr ()) \<rparr>"

definition worldChartBFails :: World where
  "worldChartBFails =
     quietWorld
       \<lparr> upgrade := (\<lambda>calls c. if HelmChart.name c = ''chart-b'' then failResult else okResult),
         uninstall := (\<lambda>calls n ns. if n = ''chart-b'' then failResult else okResult) \<rparr>"

definition worldInstallFails :: World where
  "worldInstallFails =
     quietWorld
       \<lparr> installProvider :=
           (\<lambda>calls repos charts.
              \<lparr> ProviderInstallOutcome.success = False,
                ProviderInstallOutcome.results =
                  [\<lparr> StepOutcome.step = ''repo-add'', result = okResult \<rparr>,
                   \<lparr> StepOutcome.step = ''install-chart-a'', result = failResult \<rparr>] \<rparr>) \<rparr>"

definition worldInstalled :: World where
  "worldInstalled =
     quietWorld
       \<lparr> checkProviderInstallation :=
           (\<lambda>calls i. \<lparr> installed = True, ProviderInstallation.message = None,
                         crdFound = Some True, operatorRunning = Some True \<rparr>) \<rparr>"

definition worldUnreachable :: World where
  "worldUnreachable =
     quietWorld \<lparr> getClusterGpuCapacity := (\<lambda>calls. Inl (Error ''connect ECONNREFUSED'')) \<rparr>"

definition worldCreateFails :: World where
  "worldCreateFails =
     worldUnreachable
       \<lparr> createDeployment := (\<lambda>calls config. Inl (Error ''connect ECONNREFUSED'')) \<rparr>"

definition worldNoGpus :: World where
  "worldNoGpus =
     quietWorld
       \<lparr> getClusterGpuCapacity :=
           (\<lambda>calls. Inr \<lparr> ClusterGpuCapacity.totalGpus = 8, ClusterGpuCapacity.allocatedGpus = 8,
                            ClusterGpuCapacity.availableGpus = 0, maxContiguousAvailable = 0,
                            nodes = [] \<rparr>) \<rparr>"

section \<open>Properties of the cost estimation service\<close>

text \<open>
  Claim C2. For every input in aggregated mode, \<^verbatim>\<open>calculateResourceBreakdown\<close> returns
  \<open>totalGpus\<close> equal to \<open>replicas\<close> times \<open>gpusPerReplica\<close> and \<open>totalInstances\<close> equal to
  \<open>replicas\<close>.
\<close>

theorem aggregated_totals:
  assumes "mode input = Aggregated"
  shows "totalGpus (calculateResourceBreakdown input) = replicas input * gpusPerReplica input
       \<and> totalInstances (calculateResourceBreakdown input) = replicas input"
  using assms by (simp add: calculateResourceBreakdown_def Let_def)

theorem aggregated_totals_witness:
  "totalGpus (calculateResourceBreakdown
      \<lparr> mode = Aggregated, replicas = 2, gpusPerReplica = 4, prefillReplicas = None,
        decodeReplicas = None, prefillGpus = None, decodeGpus = None,
        cloudProvider = None, gpuType = None, customHourlyRate = None \<rparr>) = 8
   \<and> totalInstances (calculateResourceBreakdown
      \<lparr> mode = Aggregated, replicas = 2, gpusPerReplica = 4, prefillReplicas = None,
        decodeReplicas = None, prefillGpus = None, decodeGpus = None,
        cloudProvider = None, gpuType = None, customHourlyRate = None \<rparr>) = 2"
  using aggregated_totals [of
      "\<lparr> mode = Aggregated, replicas = 2, gpusPerReplica = 4, prefillReplicas = None,
        decodeReplicas = None, prefillGpus = None, decodeGpus = None,
        cloudProvider = None, gpuType = None, customHourlyRate = None \<rparr>"]
  by simp

text \<open>
  Claim C3. For every input in disaggregated mode, \<^verbatim>\<open>calculateResourceBreakdown\<close>
  defaults a missing prefill or decode replica count to 1 and a missing prefill or decode GPU
  count to \<open>gpusPerReplica\<close>, and returns \<open>totalGpus\<close> equal to
  \<open>prefillInstances * prefillGpusPerInstance + decodeInstances * decodeGpusPerInstance\<close>
  and \<open>totalInstances\<close> equal to \<open>prefillInstances + decodeInstances\<close>.
\<close>

theorem disaggregated_totals:
  assumes "mode input = Disaggregated"
  shows "\<exists>pi pg di dg.
           prefillInstances (calculateResourceBreakdown input) = Some pi
         \<and> prefillGpusPerInstance (calculateResourceBreakdown input) = Some pg
         \<and> decodeInstances (calculateResourceBreakdown input) = Some di
         \<and> decodeGpusPerInstance (calculateResourceBreakdown input) = Some dg
         \<and> pi = (case prefillReplicas input of None \<Rightarrow> 1 | Some n \<Rightarrow> n)
         \<and> di = (case decodeReplicas input of None \<Rightarrow> 1 | Some n \<Rightarrow> n)
         \<and> pg = (case prefillGpus input of None \<Rightarrow> gpusPerReplica input | Some n \<Rightarrow> n)
         \<and> dg = (case decodeGpus input of None \<Rightarrow> gpusPerReplica input | Some n \<Rightarrow> n)
         \<and> totalGpus (calculateResourceBreakdown input) = pi * pg + di * dg
         \<and> totalInstances (calculateResourceBreakdown input) = pi + di"
  using assms
  by (cases "prefillReplicas input"; cases "decodeReplicas input";
      cases "prefillGpus input"; cases "decodeGpus input")
     (simp_all add: calculateResourceBreakdown_def Let_def)

theorem disaggregated_totals_witness:
  "prefillInstances (calculateResourceBreakdown requestDefaults) = Some 1
 \<and> decodeInstances (calculateResourceBreakdown requestDefaults) = Some 1
 \<and> prefillGpusPerInstance (calculateResourceBreakdown requestDefaults) = Some 4
 \<and> decodeGpusPerInstance (calculateResourceBreakdown requestDefaults) = Some 4
 \<and> totalGpus (calculateResourceBreakdown requestDefaults) = 8
 \<and> totalInstances (calculateResourceBreakdown requestDefaults) = 2"
proof -
  have m: "mode requestDefaults = Disaggregated"
    by (simp add: requestDefaults_def)
  from disaggregated_totals [OF m] show ?thesis
    by (auto simp add: requestDefaults_def)
qed

text \<open>
  Where the base GPU count is not positive, the source does not divide: the multiplier
  is 1. The route schema admits no such request.
\<close>

lemma gpuMultiplier_guard:
  "gpusPerReplica input \<le> 0 \<Longrightarrow> gpuMultiplier (calculateCostEstimate input costSettings) = Num 1"
  by (simp add: calculateCostEstimate_def Let_def)

text \<open>
  Claim C5. For every cost estimate returned by \<^verbatim>\<open>calculateCostEstimate\<close>, \<open>monthlyRate\<close>
  equals \<open>hourlyRate\<close> times 730 exactly whenever \<open>hourlyRate\<close> is defined: it is the double
  product of the two, with no further rounding or adjustment. When the resolved cloud
  provider is \<open>none\<close>, \<open>hasActualCosts\<close> is false and \<open>hourlyRate\<close> is undefined, while
  \<open>gpuMultiplier\<close> is still computed as \<open>totalGpus\<close> divided by \<open>gpusPerReplica\<close>, the double
  quotient, for every request with at least one GPU per replica, which is what the route
  schema admits.
\<close>

theorem cost_estimate_rates:
  "(\<forall>h. hourlyRate (calculateCostEstimate input costSettings) = Some h \<longrightarrow>
        monthlyRate (calculateCostEstimate input costSettings) = Some (mulNumber h (Num 730)))
 \<and> (resolvedCloudProvider input costSettings = NoProvider \<longrightarrow>
        \<not> hasActualCosts (calculateCostEstimate input costSettings)
      \<and> hourlyRate (calculateCostEstimate input costSettings) = None
      \<and> (1 \<le> gpusPerReplica input \<longrightarrow>
           gpuMultiplier (calculateCostEstimate input costSettings) =
             divNumber
               (numberOfInt (totalGpus (resources (calculateCostEstimate input costSettings))))
               (numberOfInt (gpusPerReplica input))))"
  by (auto simp add: calculateCostEstimate_def resolvedCloudProvider_def getHourlyRate_def
        Let_def)

text \<open>
  The witness is the example of the specification: two replicas of four A100-80GB GPUs on
  AWS, at 4.10 USD per GPU-hour. The hourly rate is the double next to 32.8 and the monthly
  rate is \<open>23944 - 2 ^ -38\<close>, which prints as 23943.999999999996. Without a provider the
  multiplier is 2; for \<open>requestThirds\<close> it is the double next to 8/3.
\<close>

theorem cost_estimate_rates_witness:
  "hourlyRate (calculateCostEstimate requestAws None) =
     Some (Num (2308094809027379 / 2 ^ 46))
 \<and> monthlyRate (calculateCostEstimate requestAws None) = Some (Num (23944 - 1 / 2 ^ 38))
 \<and> resolvedCloudProvider requestUnpriced None = NoProvider
 \<and> \<not> hasActualCosts (calculateCostEstimate requestUnpriced None)
 \<and> hourlyRate (calculateCostEstimate requestUnpriced None) = None
 \<and> gpuMultiplier (calculateCostEstimate requestUnpriced None) = Num 2
 \<and> gpuMultiplier (calculateCostEstimate requestThirds None) =
     Num (6004799503160661 / 2 ^ 51)"
proof -
  have h: "hourlyRate (calculateCostEstimate requestAws None) =
      Some (Num (2308094809027379 / 2 ^ 46))"
    by code_simp
  have m: "mulNumber (Num (2308094809027379 / 2 ^ 46)) (Num 730) = Num (23944 - 1 / 2 ^ 38)"
    by code_simp
  have p: "resolvedCloudProvider requestUnpriced None = NoProvider"
      "resolvedCloudProvider requestThirds None = NoProvider"
    by (simp_all add: requestUnpriced_def requestThirds_def resolvedCloudProvider_def)
  have g: "1 \<le> gpusPerReplica requestUnpriced" "1 \<le> gpusPerReplica requestThirds"
    by (simp_all add: requestUnpriced_def requestThirds_def)
  have q: "divNumber
             (numberOfInt (totalGpus (resources (calculateCostEstimate requestUnpriced None))))
             (numberOfInt (gpusPerReplica requestUnpriced)) = Num 2"
      "divNumber
             (numberOfInt (totalGpus (resources (calculateCostEstimate requestThirds None))))
             (numberOfInt (gpusPerReplica requestThirds)) = Num (6004799503160661 / 2 ^ 51)"
    by code_simp+
  from cost_estimate_rates [of requestAws None] h
  have "monthlyRate (calculateCostEstimate requestAws None) =
      Some (mulNumber (Num (2308094809027379 / 2 ^ 46)) (Num 730))"
    by blast
  with m have month: "monthlyRate (calculateCostEstimate requestAws None) =
      Some (Num (23944 - 1 / 2 ^ 38))"
    by (simp only:)
  from cost_estimate_rates [of requestUnpriced None] p(1) g(1)
  have u: "\<not> hasActualCosts (calculateCostEstimate requestUnpriced None)
      \<and> hourlyRate (calculateCostEstimate requestUnpriced None) = None
      \<and> gpuMultiplier (calculateCostEstimate requestUnpriced None) =
          divNumber
             (numberOfInt (totalGpus (resources (calculateCostEstimate requestUnpriced None))))
             (numberOfInt (gpusPerReplica requestUnpriced))"
    by blast
  from cost_estimate_rates [of requestThirds None] p(2) g(2)
  have t: "gpuMultiplier (calculateCostEstimate requestThirds None) =
          divNumber
             (numberOfInt (totalGpus (resources (calculateCostEstimate requestThirds None))))
             (numberOfInt (gpusPerReplica requestThirds))"
    by blast
  from h month p(1) u t q show ?thesis
    by (simp only: simp_thms)
qed

section \<open>Properties of the Dynamo manifest generator\<close>

lemma foldl_pushEngineArg:
  "foldl pushEngineArg acc entries =
     acc @ concat (map (\<lambda>(k, v). case v of
                          JBool b \<Rightarrow> if b then [''--'' @ k] else []
                        | _ \<Rightarrow> [''--'' @ k @ '' '' @ toStringJ v]) entries)"
proof (induction entries arbitrary: acc)
  case Nil
  show ?case by simp
next
  case (Cons e es)
  obtain k v where e: "e = (k, v)" by (cases e)
  show ?case
    by (cases v) (simp_all add: e Cons.IH push_def)
qed

lemma workerArgs_eq:
  "workerArgs config =
       [''python3 -m dynamo.'' @ engine config, ''--model '' @ modelId config]
        @ (case servedModelName config of
             None \<Rightarrow> []
           | Some s \<Rightarrow> if s \<noteq> [] then [''--served-model-name '' @ s] else [])
        @ (if enforceEager config then [''--enforce-eager''] else [])
        @ (if enablePrefixCaching config then [''--enable-prefix-caching''] else [])
        @ (if trustRemoteCode config then [''--trust-remote-code''] else [])
        @ (case contextLength config of
             None \<Rightarrow> []
           | Some n \<Rightarrow> if n \<noteq> 0 then [''--max-model-len '' @ showInt n] else [])
        @ (case engineArgs config of
             None \<Rightarrow> []
           | Some entries \<Rightarrow>
               concat (map (\<lambda>(k, v). case v of
                          JBool b \<Rightarrow> if b then [''--'' @ k] else []
                        | _ \<Rightarrow> [''--'' @ k @ '' '' @ toStringJ v]) entries))"
  by (simp add: workerArgs_def Let_def push_def foldl_pushEngineArg split: option.splits)

lemma generateWorkerSpec_shape:
  "\<exists>base. generateWorkerSpec config =
       [(if engine config = ''sglang'' then ''SglangWorker''
         else if engine config = ''trtllm'' then ''TrtllmWorker'' else ''VllmWorker'', JObj base)]
     \<and> getPath (JObj base) [''extraPodSpec'', ''mainContainer'', ''args'']
         = Some (JArr [JStr (joinWith '' '' (workerArgs config))])"
  by (simp add: generateWorkerSpec_def Let_def push_def split: option.splits)

lemma servicesOf_generate:
  "servicesOf (generateDynamoManifest config) =
     (''Frontend'', JObj (generateFrontendSpec config)) # generateWorkerSpec config"
  by (simp add: servicesOf_def generateDynamoManifest_def Let_def)

text \<open>
  Claim C1. For every deployment config with non-empty name and namespace and engine in
  \<open>{vllm, sglang, trtllm}\<close>, the services map of the generated manifest holds exactly the
  key \<open>Frontend\<close> and the worker key of the engine (\<open>VllmWorker\<close>, \<open>SglangWorker\<close> or
  \<open>TrtllmWorker\<close>), and \<^verbatim>\<open>validateManifest\<close> reports it valid with no errors. The
  theorem asks of the name and the namespace only that they are not empty, which every
  Kubernetes-valid name is.
\<close>

theorem manifest_round_trip:
  assumes "DeploymentConfig.name config \<noteq> []"
    and "DeploymentConfig.namespace config \<noteq> []"
    and "engine config \<in> {''vllm'', ''sglang'', ''trtllm''}"
  shows "map fst (servicesOf (generateDynamoManifest config)) =
           [''Frontend'',
            if engine config = ''vllm'' then ''VllmWorker''
            else if engine config = ''sglang'' then ''SglangWorker'' else ''TrtllmWorker'']
       \<and> validateManifest (generateDynamoManifest config) = \<lparr> valid = True, errors = [] \<rparr>"
proof -
  obtain base where w: "generateWorkerSpec config =
       [(if engine config = ''sglang'' then ''SglangWorker''
         else if engine config = ''trtllm'' then ''TrtllmWorker'' else ''VllmWorker'', JObj base)]"
    using generateWorkerSpec_shape [of config] by blast
  have keys: "map fst (servicesOf (generateDynamoManifest config)) =
           [''Frontend'',
            if engine config = ''vllm'' then ''VllmWorker''
            else if engine config = ''sglang'' then ''SglangWorker'' else ''TrtllmWorker'']"
    using assms(3) by (auto simp add: servicesOf_generate w)
  have ok: "validateManifest (generateDynamoManifest config) = \<lparr> valid = True, errors = [] \<rparr>"
    using assms
    by (auto simp add: validateManifest_def generateDynamoManifest_def Let_def w push_def)
  from keys ok show ?thesis by simp
qed

theorem manifest_round_trip_witness:
  "map fst (servicesOf (generateDynamoManifest baseConfig)) = [''Frontend'', ''VllmWorker'']
 \<and> validateManifest (generateDynamoManifest baseConfig) = \<lparr> valid = True, errors = [] \<rparr>"
proof -
  have n: "DeploymentConfig.name baseConfig \<noteq> []"
    and ns: "DeploymentConfig.namespace baseConfig \<noteq> []"
    and e: "engine baseConfig \<in> {''vllm'', ''sglang'', ''trtllm''}"
    by (simp_all add: baseConfig_def)
  have v: "engine baseConfig = ''vllm''"
    by (simp add: baseConfig_def)
  from manifest_round_trip [OF n ns e] show ?thesis
    by (simp add: v)
qed

text \<open>
  Claim C4, as stated: the argument string of the worker is the fixed sequence of flags
  followed by the engine arguments, where boolean true emits the bare flag and every other
  value emits \<^verbatim>\<open>--key value\<close>. It fails for the value false, which the source skips: for
  \<open>configFalseFlag\<close> the manifest carries no trace of \<^verbatim>\<open>disable-log-requests\<close>.
\<close>

theorem engine_arg_false_counterexample:
  "getPath (JObj (servicesOf (generateDynamoManifest configFalseFlag)))
     [''VllmWorker'', ''extraPodSpec'', ''mainContainer'', ''args'']
     = Some (JArr [JStr ''python3 -m dynamo.vllm --model Qwen/Qwen3-0.6B --enforce-eager''])
 \<and> claimedArgString configFalseFlag =
     ''python3 -m dynamo.vllm --model Qwen/Qwen3-0.6B --enforce-eager --disable-log-requests false''
 \<and> getPath (JObj (servicesOf (generateDynamoManifest configFalseFlag)))
     [''VllmWorker'', ''extraPodSpec'', ''mainContainer'', ''args'']
     \<noteq> Some (JArr [JStr (claimedArgString configFalseFlag)])"
  by (simp add: configFalseFlag_def baseConfig_def servicesOf_def generateDynamoManifest_def
        generateWorkerSpec_def generateFrontendSpec_def workerArgs_def claimedArgString_def
        claimedEngineArg_def push_def Let_def)

text \<open>
  Claim C4, amended: in every worker spec synthesized by the Dynamo manifest generator, the
  single command-line argument string is the concatenation (joined by single spaces), in
  this fixed order, of \<^verbatim>\<open>python3 -m dynamo.<engine>\<close>, \<^verbatim>\<open>--model <modelId>\<close>, then
  \<^verbatim>\<open>--served-model-name <name>\<close> iff the served model name is a non-empty string,
  \<^verbatim>\<open>--enforce-eager\<close>, \<^verbatim>\<open>--enable-prefix-caching\<close> and \<^verbatim>\<open>--trust-remote-code\<close> iff the
  respective flag is true, \<^verbatim>\<open>--max-model-len <n>\<close> iff the context length is a non-zero
  number, followed by the \<open>engineArgs\<close> entries in order, where boolean true emits the bare
  flag \<^verbatim>\<open>--key\<close>, boolean false emits nothing, and every non-boolean value emits
  \<^verbatim>\<open>--key value\<close>.
\<close>

theorem worker_arg_string:
  "\<exists>key base.
     servicesOf (generateDynamoManifest config) =
       [(''Frontend'', JObj (generateFrontendSpec config)), (key, JObj base)]
   \<and> getPath (JObj base) [''extraPodSpec'', ''mainContainer'', ''args''] =
       Some (JArr [JStr (joinWith '' ''
         ([''python3 -m dynamo.'' @ engine config, ''--model '' @ modelId config]
          @ (case servedModelName config of
               None \<Rightarrow> []
             | Some s \<Rightarrow> if s \<noteq> [] then [''--served-model-name '' @ s] else [])
          @ (if enforceEager config then [''--enforce-eager''] else [])
          @ (if enablePrefixCaching config then [''--enable-prefix-caching''] else [])
          @ (if trustRemoteCode config then [''--trust-remote-code''] else [])
          @ (case contextLength config of
               None \<Rightarrow> []
             | Some n \<Rightarrow> if n \<noteq> 0 then [''--max-model-len '' @ showInt n] else [])
          @ (case engineArgs config of
               None \<Rightarrow> []
             | Some entries \<Rightarrow>
                 concat (map (\<lambda>(k, v). case v of
                            JBool b \<Rightarrow> if b then [''--'' @ k] else []
                          | _ \<Rightarrow> [''--'' @ k @ '' '' @ toStringJ v]) entries))))])"
proof -
  obtain base where w: "generateWorkerSpec config =
       [(if engine config = ''sglang'' then ''SglangWorker''
         else if engine config = ''trtllm'' then ''TrtllmWorker'' else ''VllmWorker'', JObj base)]"
    and a: "getPath (JObj base) [''extraPodSpec'', ''mainContainer'', ''args'']
         = Some (JArr [JStr (joinWith '' '' (workerArgs config))])"
    using generateWorkerSpec_shape [of config] by blast
  from a have "getPath (JObj base) [''extraPodSpec'', ''mainContainer'', ''args''] =
       Some (JArr [JStr (joinWith '' ''
         ([''python3 -m dynamo.'' @ engine config, ''--model '' @ modelId config]
          @ (case servedModelName config of
               None \<Rightarrow> []
             | Some s \<Rightarrow> if s \<noteq> [] then [''--served-model-name '' @ s] else [])
          @ (if enforceEager config then [''--enforce-eager''] else [])
          @ (if enablePrefixCaching config then [''--enable-prefix-caching''] else [])
          @ (if trustRemoteCode config then [''--trust-remote-code''] else [])
          @ (case contextLength config of
               None \<Rightarrow> []
             | Some n \<Rightarrow> if n \<noteq> 0 then [''--max-model-len '' @ showInt n] else [])
          @ (case engineArgs config of
               None \<Rightarrow> []
             | Some entries \<Rightarrow>
                 concat (map (\<lambda>(k, v). case v of
                            JBool b \<Rightarrow> if b then [''--'' @ k] else []
                          | _ \<Rightarrow> [''--'' @ k @ '' '' @ toStringJ v]) entries))))])"
    by (simp only: workerArgs_eq)
  with w show ?thesis
    by (simp only: servicesOf_generate) blast
qed

section \<open>Properties of the route handlers\<close>

lemma repoAddAll_calls: "repoAddAll w calls repos = calls @ map RepoAdd repos"
  by (induction repos arbitrary: calls) (simp_all add: push_def)

lemma uninstallCharts_calls:
  "snd (uninstallCharts w calls rs cs) =
     calls @ map (\<lambda>c. Uninstall (HelmChart.name c) (HelmChart.namespace c)) cs"
  by (induction cs arbitrary: calls rs) (simp_all add: push_def Let_def)

lemma uninstallCharts_reports:
  "fst (uninstallCharts w calls rs cs) =
     rs @ map (\<lambda>i. chartReport (HelmChart.name (cs ! i))
                 (uninstall w
                    (calls @ map (\<lambda>c. Uninstall (HelmChart.name c) (HelmChart.namespace c))
                               (take i cs))
                    (HelmChart.name (cs ! i)) (HelmChart.namespace (cs ! i))))
            [0..<length cs]"
proof (induction cs arbitrary: calls rs)
  case Nil
  show ?case by simp
next
  case (Cons c cs)
  show ?case
    by (simp add: Let_def push_def Cons.IH upt_conv_Cons map_Suc_upt [symmetric] o_def
          del: upt_Suc)
qed

lemma uninstallCharts_names:
  "map ChartReport.chart (fst (uninstallCharts w calls rs cs)) =
     map ChartReport.chart rs @ map HelmChart.name cs"
  by (induction cs arbitrary: calls rs) (simp_all add: push_def Let_def chartReport_def)

lemma upgradeCharts_fail:
  assumes "\<forall>i<length pre. HelmResult.success (upgrade w (calls @ map Upgrade (take i pre)) (pre ! i))"
    and "\<not> HelmResult.success (upgrade w (calls @ map Upgrade pre) c)"
  shows "upgradeCharts w calls rs (pre @ c # post) =
           (Inl (HTTPException 500
              (''Upgrade failed for chart \"'' @ HelmChart.name c @ ''\": ''
               @ stderr (upgrade w (calls @ map Upgrade pre) c))),
            calls @ map Upgrade pre @ [Upgrade c])"
  using assms
proof (induction pre arbitrary: calls rs)
  case Nil
  then show ?case by (simp add: Let_def push_def)
next
  case (Cons p ps)
  from Cons.prems(1) have p: "HelmResult.success (upgrade w calls p)"
    by (metis length_greater_0_conv list.distinct(1) append_Nil2 list.simps(8) nth_Cons_0 take_0)
  have rest: "\<forall>i<length ps. HelmResult.success
        (upgrade w ((calls @ [Upgrade p]) @ map Upgrade (take i ps)) (ps ! i))"
  proof (intro allI impI)
    fix i assume "i < length ps"
    then have "Suc i < length (p # ps)" by simp
    with Cons.prems(1) have "HelmResult.success
        (upgrade w (calls @ map Upgrade (take (Suc i) (p # ps))) ((p # ps) ! Suc i))"
      by blast
    then show "HelmResult.success
        (upgrade w ((calls @ [Upgrade p]) @ map Upgrade (take i ps)) (ps ! i))"
      by simp
  qed
  from Cons.prems(2) have last: "\<not> HelmResult.success
        (upgrade w ((calls @ [Upgrade p]) @ map Upgrade ps) c)"
    by simp
  from Cons.IH [OF rest last] p show ?case
    by (simp add: Let_def push_def)
qed

text \<open>
  Claim C6, as stated: when a chart operation fails during provider install or upgrade, no
  further install step is issued, and the failure outcome, with the per-step results
  collected so far and the failing step's stderr, is returned to the caller as data rather
  than raised. Both handlers raise instead: an \<^verbatim>\<open>HTTPException\<close> with status 500, which
  carries a message and no list of results, and which the error handler answers with a
  body of a message and a status code. In \<open>worldChartBFails\<close> the upgrade of \<open>chart-b\<close>
  fails after \<open>chart-a\<close> went through, and the report on \<open>chart-a\<close> is lost; in
  \<open>worldInstallFails\<close> the second step of \<^verbatim>\<open>installProvider\<close> fails.
\<close>

theorem upgrade_failure_raised_counterexample:
  "fst (upgradeRoute worldChartBFails ''sample'') =
     Raised (HTTPException 500 ''Upgrade failed for chart \"chart-b\": timed out'')
 \<and> onError (HTTPException 500 ''Upgrade failed for chart \"chart-b\": timed out'') =
     (500, \<lparr> ErrorBody.message = ''Upgrade failed for chart \"chart-b\": timed out'',
             statusCode = 500 \<rparr>)
 \<and> fst (installRoute worldInstallFails ''sample'') =
     Raised (HTTPException 500 ''Installation failed at step \"install-chart-a\": timed out'')"
  by (simp add: upgradeRoute_def installRoute_def sampleRepo_def chartA_def chartB_def chartC_def sampleProvider_def
        okResult_def failResult_def quietWorld_def worldChartBFails_def worldInstallFails_def push_def Let_def)

text \<open>
  Claim C6, amended: when the upgrade of a chart fails during provider upgrade, the handler
  issues no further call (no upgrade of a later chart, no verification) and raises an HTTP
  500 error whose message names the failing chart and carries its captured stderr; the
  per-chart results collected so far are not part of it. When \<^verbatim>\<open>installProvider\<close> reports
  failure during provider install, the handler issues no further call and raises an HTTP
  500 error whose message names the first failing step of the results it was given and
  carries that step's stderr. Both hold for a registered provider with the Helm CLI
  available, which is what lets the handlers reach a provisioning step.
\<close>

theorem provisioning_failure_raises:
  assumes "providerRegistry w ident = Some provider"
    and "available (checkHelmAvailable w [])"
  shows "(\<forall>pre c post.
            helmCharts provider = pre @ c # post
          \<and> (\<forall>i<length pre. HelmResult.success
                 (upgrade w ([CheckHelmAvailable] @ map RepoAdd (helmRepos provider)
                             @ [RepoUpdate] @ map Upgrade (take i pre)) (pre ! i)))
          \<and> \<not> HelmResult.success
                 (upgrade w ([CheckHelmAvailable] @ map RepoAdd (helmRepos provider)
                             @ [RepoUpdate] @ map Upgrade pre) c)
          \<longrightarrow> upgradeRoute w ident =
                (Raised (HTTPException 500
                   (''Upgrade failed for chart \"'' @ HelmChart.name c @ ''\": ''
                    @ stderr (upgrade w ([CheckHelmAvailable] @ map RepoAdd (helmRepos provider)
                                         @ [RepoUpdate] @ map Upgrade pre) c))),
                 [CheckHelmAvailable] @ map RepoAdd (helmRepos provider) @ [RepoUpdate]
                 @ map Upgrade pre @ [Upgrade c]))
       \<and> (\<not> installed (checkProviderInstallation w [CheckHelmAvailable] ident)
          \<and> \<not> ProviderInstallOutcome.success
                 (installProvider w [CheckHelmAvailable, CheckProviderInstallation ident]
                    (helmRepos provider) (helmCharts provider))
          \<longrightarrow> installRoute w ident =
                (Raised (HTTPException 500
                   (''Installation failed at step \"''
                    @ optStr (map_option StepOutcome.step
                        (find (\<lambda>r. \<not> HelmResult.success (result r))
                           (ProviderInstallOutcome.results
                              (installProvider w
                                 [CheckHelmAvailable, CheckProviderInstallation ident]
                                 (helmRepos provider) (helmCharts provider)))))
                    @ ''\": ''
                    @ optStr (map_option (\<lambda>r. stderr (result r))
                        (find (\<lambda>r. \<not> HelmResult.success (result r))
                           (ProviderInstallOutcome.results
                              (installProvider w
                                 [CheckHelmAvailable, CheckProviderInstallation ident]
                                 (helmRepos provider) (helmCharts provider))))))),
                 [CheckHelmAvailable, CheckProviderInstallation ident,
                  InstallProvider (helmRepos provider) (helmCharts provider)]))"
proof (intro conjI allI impI)
  fix pre c post
  assume h: "helmCharts provider = pre @ c # post
          \<and> (\<forall>i<length pre. HelmResult.success
                 (upgrade w ([CheckHelmAvailable] @ map RepoAdd (helmRepos provider)
                             @ [RepoUpdate] @ map Upgrade (take i pre)) (pre ! i)))
          \<and> \<not> HelmResult.success
                 (upgrade w ([CheckHelmAvailable] @ map RepoAdd (helmRepos provider)
                             @ [RepoUpdate] @ map Upgrade pre) c)"
  let ?L = "[CheckHelmAvailable] @ map RepoAdd (helmRepos provider) @ [RepoUpdate]"
  from h have ok: "\<forall>i<length pre. HelmResult.success
                 (upgrade w (?L @ map Upgrade (take i pre)) (pre ! i))"
    by simp
  from h have bad: "\<not> HelmResult.success (upgrade w (?L @ map Upgrade pre) c)"
    by simp
  have loop: "upgradeCharts w ?L [] (pre @ c # post) =
           (Inl (HTTPException 500
              (''Upgrade failed for chart \"'' @ HelmChart.name c @ ''\": ''
               @ stderr (upgrade w (?L @ map Upgrade pre) c))),
            ?L @ map Upgrade pre @ [Upgrade c])"
    by (rule upgradeCharts_fail [OF ok bad])
  from h have charts: "helmCharts provider = pre @ c # post" by simp
  have L: "push (repoAddAll w [CheckHelmAvailable] (helmRepos provider)) RepoUpdate = ?L"
    by (simp add: repoAddAll_calls push_def)
  show "upgradeRoute w ident =
                (Raised (HTTPException 500
                   (''Upgrade failed for chart \"'' @ HelmChart.name c @ ''\": ''
                    @ stderr (upgrade w ([CheckHelmAvailable] @ map RepoAdd (helmRepos provider)
                                         @ [RepoUpdate] @ map Upgrade pre) c))),
                 [CheckHelmAvailable] @ map RepoAdd (helmRepos provider) @ [RepoUpdate]
                 @ map Upgrade pre @ [Upgrade c])"
    unfolding upgradeRoute_def Let_def
    by (simp only: assms option.case if_False if_True not_True_eq_False L charts loop
          prod.case sum.case append_assoc) 
next
  assume "\<not> installed (checkProviderInstallation w [CheckHelmAvailable] ident)
          \<and> \<not> ProviderInstallOutcome.success
                 (installProvider w [CheckHelmAvailable, CheckProviderInstallation ident]
                    (helmRepos provider) (helmCharts provider))"
  with assms show "installRoute w ident =
                (Raised (HTTPException 500
                   (''Installation failed at step \"''
                    @ optStr (map_option StepOutcome.step
                        (find (\<lambda>r. \<not> HelmResult.success (result r))
                           (ProviderInstallOutcome.results
                              (installProvider w
                                 [CheckHelmAvailable, CheckProviderInstallation ident]
                                 (helmRepos provider) (helmCharts provider)))))
                    @ ''\": ''
                    @ optStr (map_option (\<lambda>r. stderr (result r))
                        (find (\<lambda>r. \<not> HelmResult.success (result r))
                           (ProviderInstallOutcome.results
                              (installProvider w
                                 [CheckHelmAvailable, CheckProviderInstallation ident]
                                 (helmRepos provider) (helmCharts provider))))))),
                 [CheckHelmAvailable, CheckProviderInstallation ident,
                  InstallProvider (helmRepos provider) (helmCharts provider)])"
    by (simp add: installRoute_def Let_def push_def)
qed

theorem provisioning_failure_raises_witness:
  "upgradeRoute worldChartBFails ''sample'' =
     (Raised (HTTPException 500 ''Upgrade failed for chart \"chart-b\": timed out''),
      [CheckHelmAvailable, RepoAdd sampleRepo, RepoUpdate, Upgrade chartA, Upgrade chartB])
 \<and> installRoute worldInstallFails ''sample'' =
     (Raised (HTTPException 500 ''Installation failed at step \"install-chart-a\": timed out''),
      [CheckHelmAvailable, CheckProviderInstallation ''sample'',
       InstallProvider [sampleRepo] [chartA, chartB, chartC]])"
proof -
  have r1: "providerRegistry worldChartBFails ''sample'' = Some sampleProvider"
    and h1: "available (checkHelmAvailable worldChartBFails [])"
    and r2: "providerRegistry worldInstallFails ''sample'' = Some sampleProvider"
    and h2: "available (checkHelmAvailable worldInstallFails [])"
    by (simp_all add: sampleRepo_def chartA_def chartB_def chartC_def sampleProvider_def
        okResult_def failResult_def quietWorld_def worldChartBFails_def worldInstallFails_def)
  have cs: "helmCharts sampleProvider = [chartA] @ chartB # [chartC]"
    and rp: "helmRepos sampleProvider = [sampleRepo]"
    by (simp_all add: sampleProvider_def)
  have a: "\<forall>i<length [chartA]. HelmResult.success
             (upgrade worldChartBFails
                ([CheckHelmAvailable] @ map RepoAdd (helmRepos sampleProvider)
                 @ [RepoUpdate] @ map Upgrade (take i [chartA])) ([chartA] ! i))"
    by (simp add: sampleRepo_def chartA_def chartB_def chartC_def sampleProvider_def
        okResult_def failResult_def quietWorld_def worldChartBFails_def worldInstallFails_def)
  have b: "\<not> HelmResult.success
             (upgrade worldChartBFails
                ([CheckHelmAvailable] @ map RepoAdd (helmRepos sampleProvider)
                 @ [RepoUpdate] @ map Upgrade [chartA]) chartB)"
    and e: "\<And>calls. stderr (upgrade worldChartBFails calls chartB) = ''timed out''"
    and nb: "HelmChart.name chartB = ''chart-b''"
    by (simp_all add: sampleRepo_def chartA_def chartB_def chartC_def sampleProvider_def
        okResult_def failResult_def quietWorld_def worldChartBFails_def worldInstallFails_def)
  from provisioning_failure_raises [OF r1 h1] cs a b
  have "upgradeRoute worldChartBFails ''sample'' =
       (Raised (HTTPException 500
          (''Upgrade failed for chart \"'' @ HelmChart.name chartB @ ''\": ''
           @ stderr (upgrade worldChartBFails
                       ([CheckHelmAvailable] @ map RepoAdd (helmRepos sampleProvider)
                        @ [RepoUpdate] @ map Upgrade [chartA]) chartB))),
        [CheckHelmAvailable] @ map RepoAdd (helmRepos sampleProvider) @ [RepoUpdate]
        @ map Upgrade [chartA] @ [Upgrade chartB])"
    by blast
  then have u: "upgradeRoute worldChartBFails ''sample'' =
     (Raised (HTTPException 500 ''Upgrade failed for chart \"chart-b\": timed out''),
      [CheckHelmAvailable, RepoAdd sampleRepo, RepoUpdate, Upgrade chartA, Upgrade chartB])"
    by (simp add: e nb rp)
  have c: "\<not> installed (checkProviderInstallation worldInstallFails [CheckHelmAvailable] ''sample'')
          \<and> \<not> ProviderInstallOutcome.success
                 (installProvider worldInstallFails
                    [CheckHelmAvailable, CheckProviderInstallation ''sample'']
                    (helmRepos sampleProvider) (helmCharts sampleProvider))"
    by (simp add: sampleRepo_def chartA_def chartB_def chartC_def sampleProvider_def
        okResult_def failResult_def quietWorld_def worldChartBFails_def worldInstallFails_def)
  from provisioning_failure_raises [OF r2 h2, THEN conjunct2, rule_format, OF c]
  have i: "installRoute worldInstallFails ''sample'' =
     (Raised (HTTPException 500 ''Installation failed at step \"install-chart-a\": timed out''),
      [CheckHelmAvailable, CheckProviderInstallation ''sample'',
       InstallProvider [sampleRepo] [chartA, chartB, chartC]])"
    by (simp add: sampleRepo_def chartA_def chartB_def chartC_def sampleProvider_def
        okResult_def failResult_def quietWorld_def worldChartBFails_def worldInstallFails_def)
  from u i show ?thesis by simp
qed

text \<open>
  Claim C7. Provider uninstall processes the provider's declared chart list in exactly
  reverse order, continues through every chart even when the uninstall of one fails, and
  returns an outcome entry for each chart. For a registered provider with the Helm CLI
  available, the calls of the handler are the availability check, one uninstall per chart
  in reverse order of the declared list, and the final status check, whatever the world
  answers; the response lists one report per chart, in that order, each built from the
  result of that chart's uninstall.
\<close>

theorem uninstall_reverse_order:
  assumes "providerRegistry w ident = Some provider"
    and "available (checkHelmAvailable w [])"
  shows "\<exists>response.
           uninstallRoute w ident =
             (Returned 200 response,
              [CheckHelmAvailable]
              @ map (\<lambda>c. Uninstall (HelmChart.name c) (HelmChart.namespace c))
                    (rev (helmCharts provider))
              @ [CheckProviderInstallation ident])
         \<and> map ChartReport.chart (ChartsResponse.results response) =
             map HelmChart.name (rev (helmCharts provider))
         \<and> ChartsResponse.results response =
             map (\<lambda>i. chartReport (HelmChart.name (rev (helmCharts provider) ! i))
                    (uninstall w
                       ([CheckHelmAvailable]
                        @ map (\<lambda>c. Uninstall (HelmChart.name c) (HelmChart.namespace c))
                              (take i (rev (helmCharts provider))))
                       (HelmChart.name (rev (helmCharts provider) ! i))
                       (HelmChart.namespace (rev (helmCharts provider) ! i))))
                 [0..<length (helmCharts provider)]"
proof -
  let ?cs = "rev (helmCharts provider)"
  obtain rs calls where u: "uninstallCharts w [CheckHelmAvailable] [] ?cs = (rs, calls)"
    by (cases "uninstallCharts w [CheckHelmAvailable] [] ?cs")
  from uninstallCharts_calls [of w "[CheckHelmAvailable]" "[]" ?cs] u
  have calls: "calls = [CheckHelmAvailable]
       @ map (\<lambda>c. Uninstall (HelmChart.name c) (HelmChart.namespace c)) ?cs"
    by simp
  from uninstallCharts_reports [of w "[CheckHelmAvailable]" "[]" ?cs] u
  have rs: "rs = map (\<lambda>i. chartReport (HelmChart.name (?cs ! i))
                    (uninstall w
                       ([CheckHelmAvailable]
                        @ map (\<lambda>c. Uninstall (HelmChart.name c) (HelmChart.namespace c))
                              (take i ?cs))
                       (HelmChart.name (?cs ! i)) (HelmChart.namespace (?cs ! i))))
                 [0..<length (helmCharts provider)]"
    by simp
  from uninstallCharts_names [of w "[CheckHelmAvailable]" "[]" ?cs] u
  have names: "map ChartReport.chart rs = map HelmChart.name ?cs"
    by simp
  have route: "uninstallRoute w ident =
      (Returned 200
         \<lparr> ChartsResponse.success = True,
           ChartsResponse.message = Provider.name provider @ '' uninstalled'',
           ChartsResponse.installationStatus = checkProviderInstallation w calls ident,
           ChartsResponse.results = rs \<rparr>,
       calls @ [CheckProviderInstallation ident])"
    using assms u by (simp add: uninstallRoute_def Let_def push_def)
  show ?thesis
    using route calls rs names by auto
qed

theorem uninstall_reverse_order_witness:
  "snd (uninstallRoute worldChartBFails ''sample'') =
     [CheckHelmAvailable, Uninstall ''chart-c'' ''sample-system'',
      Uninstall ''chart-b'' ''sample-system'', Uninstall ''chart-a'' ''default'',
      CheckProviderInstallation ''sample'']
 \<and> (case fst (uninstallRoute worldChartBFails ''sample'') of
       Raised e \<Rightarrow> False
     | Returned code response \<Rightarrow>
         code = 200
       \<and> map ChartReport.chart (ChartsResponse.results response) =
           [''chart-c'', ''chart-b'', ''chart-a'']
       \<and> map ChartReport.success (ChartsResponse.results response) = [True, False, True])"
proof -
  have r: "providerRegistry worldChartBFails ''sample'' = Some sampleProvider"
    and h: "available (checkHelmAvailable worldChartBFails [])"
    by (simp_all add: sampleRepo_def chartA_def chartB_def chartC_def sampleProvider_def
        okResult_def failResult_def quietWorld_def worldChartBFails_def)
  from uninstall_reverse_order [OF r h] show ?thesis
    by (auto simp add: sampleRepo_def chartA_def chartB_def chartC_def sampleProvider_def
        okResult_def failResult_def quietWorld_def worldChartBFails_def chartReport_def)
qed

text \<open>
  Claim C8. When the cluster reports a provider as already installed, install returns a
  success result with \<open>alreadyInstalled = true\<close> and issues no provisioning call of the
  package manager. The handler asks the cluster once it has found the provider in the
  registry and the Helm CLI available; the two calls it makes are the availability check
  and the status query.
\<close>

theorem install_already_installed:
  assumes "providerRegistry w ident = Some provider"
    and "available (checkHelmAvailable w [])"
    and "installed (checkProviderInstallation w [CheckHelmAvailable] ident)"
  shows "installRoute w ident =
           (Returned 200
              \<lparr> InstallResponse.success = True,
                InstallResponse.message = Provider.name provider @ '' is already installed'',
                alreadyInstalled = Some True,
                InstallResponse.installationStatus = None,
                InstallResponse.results = None \<rparr>,
            [CheckHelmAvailable, CheckProviderInstallation ident])
       \<and> filter isProvisioning (snd (installRoute w ident)) = []"
  using assms by (simp add: installRoute_def Let_def push_def)

theorem install_already_installed_witness:
  "installRoute worldInstalled ''sample'' =
     (Returned 200
        \<lparr> InstallResponse.success = True,
          InstallResponse.message = ''Sample is already installed'',
          alreadyInstalled = Some True,
          InstallResponse.installationStatus = None,
          InstallResponse.results = None \<rparr>,
      [CheckHelmAvailable, CheckProviderInstallation ''sample''])
 \<and> filter isProvisioning (snd (installRoute worldInstalled ''sample'')) = []"
proof -
  have r: "providerRegistry worldInstalled ''sample'' = Some sampleProvider"
    and h: "available (checkHelmAvailable worldInstalled [])"
    and i: "installed (checkProviderInstallation worldInstalled [CheckHelmAvailable] ''sample'')"
    by (simp_all add: sampleProvider_def quietWorld_def worldInstalled_def)
  from install_already_installed [OF r h i] show ?thesis
    by (simp add: sampleProvider_def)
qed

text \<open>
  Claim C9. For every deployment request that passes config validation, a failure of the
  GPU capacity query never makes the request fail: the deployment is still created, GPU-fit
  warnings are returned only as strings in the response, and a result that does not fit
  does not block creation. Whatever the capacity query and the fit check answer, the handler
  calls \<^verbatim>\<open>createDeployment\<close> with the validated config; it raises exactly what
  \<^verbatim>\<open>createDeployment\<close> itself raises; when the capacity query throws and creation
  succeeds, the response is 201 without warnings; when the fit check fails and creation
  succeeds, the response is 201 and carries the formatted warnings.
\<close>

theorem capacity_failure_does_not_block:
  assumes "validateConfig w body = Valid config"
  shows "snd (createDeploymentRoute w body) = [GetClusterGpuCapacity, CreateDeployment config]
       \<and> (\<forall>e. fst (createDeploymentRoute w body) = Raised e \<longleftrightarrow>
              createDeployment w [GetClusterGpuCapacity] config = Inl e)
       \<and> (\<forall>e. getClusterGpuCapacity w [] = Inl e
              \<and> createDeployment w [GetClusterGpuCapacity] config = Inr () \<longrightarrow>
              fst (createDeploymentRoute w body) =
                Returned 201
                  \<lparr> CreateDeploymentResponse.message = ''Deployment created successfully'',
                    CreateDeploymentResponse.name = DeploymentConfig.name config,
                    CreateDeploymentResponse.namespace = DeploymentConfig.namespace config,
                    warnings = None \<rparr>)
       \<and> (\<forall>capacity fit.
              getClusterGpuCapacity w [] = Inr capacity
              \<and> fit = validateGpuFit w config capacity
                        (case find (\<lambda>m. Model.id m = modelId config) (models w) of
                           None \<Rightarrow> 1
                         | Some m \<Rightarrow> orElse (minGpus m) 1)
              \<and> \<not> fits fit
              \<and> createDeployment w [GetClusterGpuCapacity] config = Inr () \<longrightarrow>
              fst (createDeploymentRoute w body) =
                Returned 201
                  \<lparr> CreateDeploymentResponse.message = ''Deployment created successfully'',
                    CreateDeploymentResponse.name = DeploymentConfig.name config,
                    CreateDeploymentResponse.namespace = DeploymentConfig.namespace config,
                    warnings = (if formatGpuWarnings w fit = [] then None
                                else Some (formatGpuWarnings w fit)) \<rparr>)"
proof (intro conjI allI impI)
  show "snd (createDeploymentRoute w body) = [GetClusterGpuCapacity, CreateDeployment config]"
    using assms
    by (simp add: createDeploymentRoute_def Let_def push_def split: sum.splits)
next
  fix e
  from assms show "fst (createDeploymentRoute w body) = Raised e \<longleftrightarrow>
      createDeployment w [GetClusterGpuCapacity] config = Inl e"
    by (simp add: createDeploymentRoute_def Let_def split: sum.splits)
next
  fix e
  assume "getClusterGpuCapacity w [] = Inl e
        \<and> createDeployment w [GetClusterGpuCapacity] config = Inr ()"
  with assms show "fst (createDeploymentRoute w body) =
                Returned 201
                  \<lparr> CreateDeploymentResponse.message = ''Deployment created successfully'',
                    CreateDeploymentResponse.name = DeploymentConfig.name config,
                    CreateDeploymentResponse.namespace = DeploymentConfig.namespace config,
                    warnings = None \<rparr>"
    by (simp add: createDeploymentRoute_def Let_def)
next
  fix capacity fit
  assume "getClusterGpuCapacity w [] = Inr capacity
              \<and> fit = validateGpuFit w config capacity
                        (case find (\<lambda>m. Model.id m = modelId config) (models w) of
                           None \<Rightarrow> 1
                         | Some m \<Rightarrow> orElse (minGpus m) 1)
              \<and> \<not> fits fit
              \<and> createDeployment w [GetClusterGpuCapacity] config = Inr ()"
  then show "fst (createDeploymentRoute w body) =
                Returned 201
                  \<lparr> CreateDeploymentResponse.message = ''Deployment created successfully'',
                    CreateDeploymentResponse.name = DeploymentConfig.name config,
                    CreateDeploymentResponse.namespace = DeploymentConfig.namespace config,
                    warnings = (if formatGpuWarnings w fit = [] then None
                                else Some (formatGpuWarnings w fit)) \<rparr>"
    using assms
    by (auto simp add: createDeploymentRoute_def Let_def)
qed

theorem capacity_failure_does_not_block_witness:
  "createDeploymentRoute worldUnreachable (JObj []) =
     (Returned 201
        \<lparr> CreateDeploymentResponse.message = ''Deployment created successfully'',
          CreateDeploymentResponse.name = ''test-deployment'',
          CreateDeploymentResponse.namespace = ''kubefoundry-system'',
          warnings = None \<rparr>,
      [GetClusterGpuCapacity, CreateDeployment baseConfig])
 \<and> createDeploymentRoute worldNoGpus (JObj []) =
     (Returned 201
        \<lparr> CreateDeploymentResponse.message = ''Deployment created successfully'',
          CreateDeploymentResponse.name = ''test-deployment'',
          CreateDeploymentResponse.namespace = ''kubefoundry-system'',
          warnings = Some [''Not enough GPUs available''] \<rparr>,
      [GetClusterGpuCapacity, CreateDeployment baseConfig])
 \<and> fst (createDeploymentRoute worldCreateFails (JObj [])) =
     Raised (Error ''connect ECONNREFUSED'')"
proof -
  have v3: "validateConfig worldCreateFails (JObj []) = Valid baseConfig"
    and k: "createDeployment worldCreateFails [GetClusterGpuCapacity] baseConfig =
              Inl (Error ''connect ECONNREFUSED'')"
    by (simp_all add: quietWorld_def worldUnreachable_def worldCreateFails_def)
  from capacity_failure_does_not_block [OF v3] k
  have f3: "fst (createDeploymentRoute worldCreateFails (JObj [])) =
     Raised (Error ''connect ECONNREFUSED'')"
    by blast
  have v1: "validateConfig worldUnreachable (JObj []) = Valid baseConfig"
    and v2: "validateConfig worldNoGpus (JObj []) = Valid baseConfig"
    by (simp_all add: quietWorld_def worldUnreachable_def worldNoGpus_def)
  have c: "baseConfig = baseConfig" ..
  have n: "DeploymentConfig.name baseConfig = ''test-deployment''"
      "DeploymentConfig.namespace baseConfig = ''kubefoundry-system''"
    by (simp_all add: baseConfig_def)
  have u: "getClusterGpuCapacity worldUnreachable [] = Inl (Error ''connect ECONNREFUSED'')
         \<and> createDeployment worldUnreachable [GetClusterGpuCapacity] baseConfig = Inr ()"
    by (simp add: quietWorld_def worldUnreachable_def worldNoGpus_def)
  let ?cap = "\<lparr> ClusterGpuCapacity.totalGpus = 8, ClusterGpuCapacity.allocatedGpus = 8,
                ClusterGpuCapacity.availableGpus = 0, maxContiguousAvailable = 0,
                nodes = [] \<rparr>"
  let ?fit = "\<lparr> fits = False, GpuFitResult.warnings = [''Not enough GPUs available''] \<rparr>"
  have g: "getClusterGpuCapacity worldNoGpus [] = Inr ?cap
         \<and> ?fit = validateGpuFit worldNoGpus baseConfig ?cap
                     (case find (\<lambda>m. Model.id m = modelId baseConfig) (models worldNoGpus) of
                        None \<Rightarrow> 1
                      | Some m \<Rightarrow> orElse (minGpus m) 1)
         \<and> \<not> fits ?fit
         \<and> createDeployment worldNoGpus [GetClusterGpuCapacity] baseConfig = Inr ()"
    by (simp add: quietWorld_def worldUnreachable_def worldNoGpus_def)
  have f: "formatGpuWarnings worldNoGpus ?fit = [''Not enough GPUs available'']"
    by (simp add: quietWorld_def worldUnreachable_def worldNoGpus_def)
  note T1 = capacity_failure_does_not_block [OF v1]
  note T2 = capacity_failure_does_not_block [OF v2]
  from T1 have s1: "snd (createDeploymentRoute worldUnreachable (JObj [])) =
      [GetClusterGpuCapacity, CreateDeployment baseConfig]"
    by blast
  from T1 u have f1: "fst (createDeploymentRoute worldUnreachable (JObj [])) =
     Returned 201
        \<lparr> CreateDeploymentResponse.message = ''Deployment created successfully'',
          CreateDeploymentResponse.name = DeploymentConfig.name baseConfig,
          CreateDeploymentResponse.namespace = DeploymentConfig.namespace baseConfig,
          warnings = None \<rparr>"
    by blast
  from T2 have s2: "snd (createDeploymentRoute worldNoGpus (JObj [])) =
      [GetClusterGpuCapacity, CreateDeployment baseConfig]"
    by blast
  from T2 g have f2: "fst (createDeploymentRoute worldNoGpus (JObj [])) =
     Returned 201
        \<lparr> CreateDeploymentResponse.message = ''Deployment created successfully'',
          CreateDeploymentResponse.name = DeploymentConfig.name baseConfig,
          CreateDeploymentResponse.namespace = DeploymentConfig.namespace baseConfig,
          warnings = (if formatGpuWarnings worldNoGpus ?fit = [] then None
                      else Some (formatGpuWarnings worldNoGpus ?fit)) \<rparr>"
    by blast
  from s1 f1 s2 f2 f3 show ?thesis
    by (simp add: prod_eq_iff n f)
qed

end
